theory Spec2Isabelle
  imports Complex_Main
begin

section \<open>The record store\<close>

text \<open>
  The tables are those of \<^verbatim>\<open>createTables\<close> (config/database.js), one record per row
  and one list per table, in primary-key order. Column names carry the initial of
  their table, since several tables share \<^verbatim>\<open>id\<close>, \<^verbatim>\<open>created_at\<close> and
  \<^verbatim>\<open>updated_at\<close>. \<^verbatim>\<open>customer_features\<close> is written by routes/webhook.js only;
  its columns are the ones its INSERT names. Timestamps are seconds on the server's
  clock. Text columns are compared by plain string equality.
\<close>

record customer =
  c_id :: nat
  c_nome :: string
  c_cpf :: string
  c_email :: string
  c_telefone :: string
  c_asaas_customer_id :: "string option"
  c_created_at :: nat
  c_updated_at :: nat

record payment =
  p_id :: nat
  p_customer_id :: nat
  p_asaas_payment_id :: string
  p_plan_type :: string
  p_payment_method :: string
  p_amount :: rat
  p_status :: string
  p_external_reference :: "string option"
  p_created_at :: nat
  p_updated_at :: nat

text \<open>
  A webhook notification as the route reads it: \<^verbatim>\<open>req.body.event\<close> and
  \<^verbatim>\<open>req.body.payment\<close>. Nothing validates the body, so either member may be
  absent (\<^verbatim>\<open>undefined\<close>). The JSON column \<^verbatim>\<open>payload\<close> of \<^verbatim>\<open>webhook_logs\<close> holds
  the document that \<^verbatim>\<open>JSON.stringify(req.body)\<close> denotes.
\<close>

record webhook_payment =
  wp_id :: string

record webhook_body =
  body_event :: "string option"
  body_payment :: "webhook_payment option"

record webhook_log =
  l_id :: nat
  l_payment_id :: "string option"
  l_event_type :: string
  l_payload :: webhook_body
  l_processed :: bool
  l_error_message :: "string option"
  l_created_at :: nat

record customer_feature =
  f_customer_id :: nat
  f_feature_name :: string
  f_is_active :: bool
  f_created_at :: nat
  f_updated_at :: "nat option"

record payment_error =
  e_id :: nat
  e_error_message :: string
  e_request_data :: string
  e_created_at :: nat

record tables =
  customers :: "customer list"
  payments :: "payment list"
  webhook_logs :: "webhook_log list"
  customer_features :: "customer_feature list"
  payment_errors :: "payment_error list"
  current_timestamp :: nat

section \<open>Asynchronous calls that may throw\<close>

text \<open>
  What a JavaScript \<^verbatim>\<open>catch\<close> can receive here: a \<^verbatim>\<open>TypeError\<close> (a property
  read on \<^verbatim>\<open>undefined\<close>, or \<^verbatim>\<open>undefined\<close> handed to the database driver as a
  bind parameter), a \<^verbatim>\<open>ReferenceError\<close> (an identifier that is bound nowhere), a
  \<^verbatim>\<open>SyntaxError\<close> (\<^verbatim>\<open>JSON.parse\<close> of something that is not JSON text), an error
  thrown by \<^verbatim>\<open>connection.execute\<close>, and an \<^verbatim>\<open>Error\<close> raised with
  \<^verbatim>\<open>throw new Error(...)\<close>.
\<close>

datatype error =
  TypeError string
  | ReferenceError string
  | SyntaxError string
  | DbError string
  | Error string

fun message :: "error \<Rightarrow> string" where
  "message (TypeError m) = m"
| "message (ReferenceError m) = m"
| "message (SyntaxError m) = m"
| "message (DbError m) = m"
| "message (Error m) = m"

text \<open>
  The database is shared with the rest of the world. Each call of
  \<^verbatim>\<open>connection.execute\<close> meets one event of a schedule fixed in advance: the
  statement runs (\<open>Proceed\<close>); it is rejected or the connection fails, and the
  call throws without effect (\<open>Throws\<close>); or other sessions commit a change just
  before the statement runs (\<open>Concurrently\<close>). An exhausted schedule means every
  further statement runs undisturbed.
\<close>

datatype env_event =
  Proceed
  | is_Throws: Throws string
  | is_Concurrently: Concurrently "tables \<Rightarrow> tables"

text \<open>The tables as the statement meeting the event finds them.\<close>

fun arrive :: "env_event \<Rightarrow> tables \<Rightarrow> tables" where
  "arrive Proceed t = t"
| "arrive (Throws m) t = t"
| "arrive (Concurrently f) t = f t"

text \<open>The SQL texts of the source, with their bound parameters.\<close>

datatype statement =
  Insert_webhook_log "string option" string webhook_body
    \<comment> \<open>INSERT INTO webhook\_logs (payment\_id, event\_type, payload) VALUES (?, ?, ?)\<close>
  | Mark_processed "string option" string
    \<comment> \<open>UPDATE webhook\_logs SET processed = TRUE WHERE payment\_id = ? AND event\_type = ?
        ORDER BY created\_at DESC LIMIT 1\<close>
  | Set_error_message string "string option"
    \<comment> \<open>UPDATE webhook\_logs SET error\_message = ? WHERE payment\_id = ?
        ORDER BY created\_at DESC LIMIT 1\<close>
  | Select_payment string
    \<comment> \<open>SELECT id, asaas\_payment\_id, status, customer\_id, plan\_type FROM payments
        WHERE asaas\_payment\_id = ?\<close>
  | Select_recent_payments
    \<comment> \<open>SELECT asaas\_payment\_id FROM payments ORDER BY created\_at DESC LIMIT 5\<close>
  | Update_payment_status string string
    \<comment> \<open>UPDATE payments SET status = ?, updated\_at = CURRENT\_TIMESTAMP
        WHERE asaas\_payment\_id = ?\<close>
  | Select_payment_status string
    \<comment> \<open>SELECT status, updated\_at FROM payments WHERE asaas\_payment\_id = ?\<close>
  | Select_payment_customer nat string
    \<comment> \<open>SELECT p.*, c.... FROM payments p JOIN customers c ON p.customer\_id = c.id
        WHERE p.asaas\_payment\_id = ? (the number tells the column list: 1, 2, 3 are
        the variations of activateCustomerServices, 0 is deactivateCustomerServices)\<close>
  | Upsert_feature nat string
    \<comment> \<open>INSERT INTO customer\_features (customer\_id, feature\_name, is\_active, created\_at)
        VALUES (?, '...', TRUE, NOW())
        ON DUPLICATE KEY UPDATE is\_active = TRUE, updated\_at = NOW()\<close>
  | Select_webhook_log nat
    \<comment> \<open>SELECT * FROM webhook\_logs WHERE id = ?\<close>
  | Mark_reprocessed nat
    \<comment> \<open>UPDATE webhook\_logs SET processed = TRUE, updated\_at = CURRENT\_TIMESTAMP
        WHERE id = ?\<close>
  | Select_customer string string
    \<comment> \<open>SELECT id, asaas\_customer\_id FROM customers WHERE email = ? OR cpf = ?\<close>
  | Update_customer string string nat
    \<comment> \<open>UPDATE customers SET nome = ?, telefone = ?, updated\_at = NOW() WHERE id = ?\<close>
  | Insert_customer string string string string "string option"
    \<comment> \<open>INSERT INTO customers (nome, cpf, email, telefone, asaas\_customer\_id, created\_at,
        updated\_at) VALUES (?, ?, ?, ?, ?, NOW(), NOW())\<close>
  | Insert_payment nat string string string rat string
    \<comment> \<open>INSERT INTO payments (customer\_id, asaas\_payment\_id, plan\_type, payment\_method,
        amount, status, external\_reference, created\_at, updated\_at)
        VALUES (?, ?, ?, ?, ?, 'PENDING', ?, NOW(), NOW())\<close>
  | Insert_payment_error string string
    \<comment> \<open>INSERT INTO payment\_errors (error\_message, request\_data, created\_at)
        VALUES (?, ?, NOW())\<close>

text \<open>
  The bodies of the two requests that services/asaasService.js posts to the gateway.
  \<^verbatim>\<open>customer\<close> is the remote customer reference; it is NULL for a stored customer
  that has none.
\<close>

record customer_payload =
  cp_name :: string
  cp_cpfCnpj :: string
  cp_email :: string
  cp_phone :: string
  cp_notificationDisabled :: bool

record payment_payload =
  pp_customer :: "string option"
  pp_billingType :: string
  pp_value :: rat
  pp_dueDate :: string
  pp_description :: string
  pp_externalReference :: string
  pp_installmentCount :: "nat option"
  pp_installmentValue :: "rat option"
  pp_pixTransaction :: "string option"

text \<open>
  Calls that leave the process, in the order they were made: SQL statements and the two
  requests to the payment gateway.
\<close>

datatype call =
  Sql statement
  | Post_customers customer_payload
  | Post_payments payment_payload

record world =
  db :: tables
  schedule :: "env_event list"
  trace :: "call list"

type_synonym 'a io = "world \<Rightarrow> (error + 'a) \<times> world"

definition return :: "'a \<Rightarrow> 'a io" where
  "return x w = (Inr x, w)"

definition throw :: "error \<Rightarrow> 'a io" where
  "throw e w = (Inl e, w)"

text \<open>\<^verbatim>\<open>const x = await m; k\<close>: a rejection of \<open>m\<close> skips \<open>k\<close>.\<close>

definition await :: "'a io \<Rightarrow> ('a \<Rightarrow> 'b io) \<Rightarrow> 'b io" where
  "await m k w = (case m w of (Inl e, w') \<Rightarrow> (Inl e, w') | (Inr x, w') \<Rightarrow> k x w')"

text \<open>\<^verbatim>\<open>try { m } catch (error) { h }\<close>.\<close>

definition try_catch :: "'a io \<Rightarrow> (error \<Rightarrow> 'a io) \<Rightarrow> 'a io" where
  "try_catch m h w = (case m w of (Inl e, w') \<Rightarrow> h e w' | (Inr x, w') \<Rightarrow> (Inr x, w'))"

fun incoming :: "env_event list \<Rightarrow> env_event" where
  "incoming [] = Proceed"
| "incoming (e # es) = e"

text \<open>
  \<^verbatim>\<open>await connection.execute(sql, params)\<close>: the statement is recorded, the next
  event of the schedule is consumed, and \<open>run\<close> (the meaning of the statement on the
  tables) gives the result and the new tables.
\<close>

definition execute :: "statement \<Rightarrow> (tables \<Rightarrow> 'a \<times> tables) \<Rightarrow> 'a io" where
  "execute q run w =
     (let w1 = w\<lparr>schedule := tl (schedule w), trace := trace w @ [Sql q]\<rparr> in
      case incoming (schedule w) of
        Throws m \<Rightarrow> (Inl (DbError m), w1)
      | Proceed \<Rightarrow> (case run (db w) of (r, t) \<Rightarrow> (Inr r, w1\<lparr>db := t\<rparr>))
      | Concurrently f \<Rightarrow> (case run (f (db w)) of (r, t) \<Rightarrow> (Inr r, w1\<lparr>db := t\<rparr>)))"

text \<open>
  A statement that the server checks against the schema before it runs: when the
  tables it finds violate a constraint of \<^verbatim>\<open>createTables\<close> (config/database.js), or
  when the statement names a column that no table has, the call throws and the tables
  stay as they were found. \<open>refused\<close> gives the server's message in that case.
\<close>

definition execute_checked ::
    "statement \<Rightarrow> (tables \<Rightarrow> string option) \<Rightarrow> (tables \<Rightarrow> 'a \<times> tables) \<Rightarrow> 'a io" where
  "execute_checked q refused run w =
     (let w1 = w\<lparr>schedule := tl (schedule w), trace := trace w @ [Sql q]\<rparr>;
          t = arrive (incoming (schedule w)) (db w) in
      case incoming (schedule w) of
        Throws m \<Rightarrow> (Inl (DbError m), w1)
      | _ \<Rightarrow>
          (case refused t of
             Some m \<Rightarrow> (Inl (DbError m), w1\<lparr>db := t\<rparr>)
           | None \<Rightarrow> (case run t of (r, t') \<Rightarrow> (Inr r, w1\<lparr>db := t'\<rparr>))))"

text \<open>
  The driver refuses \<^verbatim>\<open>undefined\<close> among the bind parameters before anything is
  sent: the call throws a TypeError and the database sees no statement.
\<close>

definition undefined_parameter :: "'a io" where
  "undefined_parameter =
     throw (TypeError ''Bind parameters must not contain undefined. To pass SQL NULL specify JS null'')"

text \<open>The result header of a data-changing statement.\<close>

record result_header =
  affectedRows :: nat
  changedRows :: nat
  insertId :: nat

definition next_id :: "nat list \<Rightarrow> nat" where
  "next_id ids = Suc (fold max ids 0)"

section \<open>Statements on payments (routes/webhook.js)\<close>

definition select_payment :: "string \<Rightarrow> payment list io" where
  "select_payment asaasPaymentId =
     execute (Select_payment asaasPaymentId)
       (\<lambda>t. (filter (\<lambda>p. p_asaas_payment_id p = asaasPaymentId) (payments t), t))"

definition select_recent_payments :: "string list io" where
  "select_recent_payments =
     execute Select_recent_payments
       (\<lambda>t. (take 5 (map p_asaas_payment_id
                (rev (sort_key p_created_at (payments t)))), t))"

text \<open>
  \<^verbatim>\<open>affectedRows\<close> counts the rows the WHERE clause matched and \<^verbatim>\<open>changedRows\<close>
  those whose stored values differ afterwards: the source tells the two apart in the
  same way (its warning for \<^verbatim>\<open>changedRows === 0\<close> sits after the test of
  \<^verbatim>\<open>affectedRows === 0\<close>).
\<close>

definition set_status :: "string \<Rightarrow> nat \<Rightarrow> payment \<Rightarrow> payment" where
  "set_status status now p = p\<lparr>p_status := status, p_updated_at := now\<rparr>"

definition update_payment_status :: "string \<Rightarrow> string \<Rightarrow> result_header io" where
  "update_payment_status status asaasPaymentId =
     execute (Update_payment_status status asaasPaymentId)
       (\<lambda>t. let matched = filter (\<lambda>p. p_asaas_payment_id p = asaasPaymentId) (payments t);
                 now = current_timestamp t
             in (\<lparr>affectedRows = length matched,
                  changedRows = length (filter (\<lambda>p. set_status status now p \<noteq> p) matched),
                  insertId = 0\<rparr>,
                 t\<lparr>payments := map (\<lambda>p. if p_asaas_payment_id p = asaasPaymentId
                                          then set_status status now p else p) (payments t)\<rparr>))"

definition select_payment_status :: "string \<Rightarrow> (string \<times> nat) list io" where
  "select_payment_status asaasPaymentId =
     execute (Select_payment_status asaasPaymentId)
       (\<lambda>t. (map (\<lambda>p. (p_status p, p_updated_at p))
                (filter (\<lambda>p. p_asaas_payment_id p = asaasPaymentId) (payments t)), t))"

section \<open>updatePaymentStatus\<close>

text \<open>
  The body of the \<^verbatim>\<open>try\<close> block, then the function with its \<^verbatim>\<open>catch\<close>, which
  logs and returns \<^verbatim>\<open>false\<close>. The fourth parameter \<^verbatim>\<open>paymentDate\<close> is only
  printed and no caller passes it.
\<close>

definition updatePaymentStatus_try :: "string \<Rightarrow> string \<Rightarrow> bool io" where
  "updatePaymentStatus_try asaasPaymentId status =
     await (select_payment asaasPaymentId) (\<lambda>existingPayment.
       case existingPayment of
         [] \<Rightarrow> await select_recent_payments (\<lambda>similarPayments. return False)
       | existing0 # _ \<Rightarrow>
           if p_status existing0 = status then return True
           else
             await (update_payment_status status asaasPaymentId) (\<lambda>result.
               if affectedRows result = 0 then return False
               else
                 await (select_payment_status asaasPaymentId) (\<lambda>updatedPayment.
                   return True)))"

definition updatePaymentStatus :: "string \<Rightarrow> string \<Rightarrow> bool io" where
  "updatePaymentStatus asaasPaymentId status =
     try_catch (updatePaymentStatus_try asaasPaymentId status) (\<lambda>error. return False)"

section \<open>Service activation and deactivation\<close>

definition select_payment_customer :: "nat \<Rightarrow> string \<Rightarrow> (payment \<times> customer) list io" where
  "select_payment_customer variation asaasPaymentId =
     execute (Select_payment_customer variation asaasPaymentId)
       (\<lambda>t. (concat (map (\<lambda>p. map (Pair p) (filter (\<lambda>c. p_customer_id p = c_id c) (customers t)))
                 (filter (\<lambda>p. p_asaas_payment_id p = asaasPaymentId) (payments t))), t))"

text \<open>
  The upsert: the duplicate key is taken to be (customer\_id, feature\_name), one flag
  row per customer and feature. A present row is marked active, an absent one is
  created.
\<close>

definition upsert_feature :: "nat \<Rightarrow> string \<Rightarrow> result_header io" where
  "upsert_feature customer_id feature_name =
     execute (Upsert_feature customer_id feature_name)
       (\<lambda>t. let same = (\<lambda>f. f_customer_id f = customer_id \<and> f_feature_name f = feature_name);
                 now = current_timestamp t
             in if list_ex same (customer_features t)
                then (\<lparr>affectedRows = 2, changedRows = 0, insertId = 0\<rparr>,
                      t\<lparr>customer_features :=
                          map (\<lambda>f. if same f then f\<lparr>f_is_active := True, f_updated_at := Some now\<rparr>
                                    else f) (customer_features t)\<rparr>)
                else (\<lparr>affectedRows = 1, changedRows = 0, insertId = 0\<rparr>,
                      t\<lparr>customer_features := customer_features t @
                          [\<lparr>f_customer_id = customer_id, f_feature_name = feature_name,
                            f_is_active = True, f_created_at = now, f_updated_at = None\<rparr>]\<rparr>))"

text \<open>
  \<^verbatim>\<open>debugTableStructure\<close> is called by activateCustomerServices and is declared
  nowhere: not in routes/webhook.js, not in the modules it requires, not as a global.
  Evaluating the identifier throws a ReferenceError.
\<close>

definition debugTableStructure :: "unit io" where
  "debugTableStructure = throw (ReferenceError ''debugTableStructure is not defined'')"

text \<open>
  The \<^verbatim>\<open>for\<close> loop over \<^verbatim>\<open>queryVariations\<close>: a variation that throws is skipped
  (\<^verbatim>\<open>continue\<close>), the first one that returns rows ends the loop (\<^verbatim>\<open>break\<close>).
  \<open>None\<close> is the initial \<^verbatim>\<open>paymentData = null\<close>.
\<close>

fun queryVariations :: "nat list \<Rightarrow> string \<Rightarrow> (payment \<times> customer) list option io" where
  "queryVariations [] asaasPaymentId = return None"
| "queryVariations (i # rest) asaasPaymentId =
     await (try_catch
              (await (select_payment_customer i asaasPaymentId) (\<lambda>result.
                 return (if length result > 0 then Some result else None)))
              (\<lambda>queryError. return None))
       (\<lambda>found. case found of
            Some result \<Rightarrow> return (Some result)
          | None \<Rightarrow> queryVariations rest asaasPaymentId)"

definition activateEssentialPlan :: "payment \<Rightarrow> unit io" where
  "activateEssentialPlan payment =
     try_catch
       (await (upsert_feature (p_customer_id payment) ''basic_features'') (\<lambda>_. return ()))
       (\<lambda>error. return ())"

definition activateCompletePlan :: "payment \<Rightarrow> unit io" where
  "activateCompletePlan payment =
     try_catch
       (await (upsert_feature (p_customer_id payment) ''premium_features'') (\<lambda>_. return ()))
       (\<lambda>error. return ())"

definition activateCustomerServices :: "string \<Rightarrow> unit io" where
  "activateCustomerServices asaasPaymentId =
     try_catch
       (await debugTableStructure (\<lambda>_.
        await (queryVariations [1, 2, 3] asaasPaymentId) (\<lambda>paymentData.
          case paymentData of
            None \<Rightarrow> return ()
          | Some [] \<Rightarrow> return ()
          | Some (row # _) \<Rightarrow>
              if p_plan_type (fst row) = ''ESSENCIAL'' then activateEssentialPlan (fst row)
              else if p_plan_type (fst row) = ''COMPLETO'' then activateCompletePlan (fst row)
              else return ())))
       (\<lambda>error. return ())"

definition deactivateCustomerServices :: "string \<Rightarrow> unit io" where
  "deactivateCustomerServices asaasPaymentId =
     try_catch
       (await (select_payment_customer 0 asaasPaymentId) (\<lambda>paymentData.
          if length paymentData = 0 then return () else return ()))
       (\<lambda>error. return ())"

section \<open>Event handlers\<close>

text \<open>
  Every handler starts by reading \<^verbatim>\<open>payment.id\<close>, which throws a TypeError when the
  notification carries no \<^verbatim>\<open>payment\<close>.
\<close>

fun payment_id :: "webhook_payment option \<Rightarrow> string io" where
  "payment_id None = throw (TypeError ''Cannot read properties of undefined (reading id)'')"
| "payment_id (Some payment) = return (wp_id payment)"

definition handlePaymentCreated :: "webhook_payment option \<Rightarrow> unit io" where
  "handlePaymentCreated payment =
     await (payment_id payment) (\<lambda>pid.
     await (updatePaymentStatus pid ''PENDING'') (\<lambda>_. return ()))"

definition handlePaymentAwaitingConfirmation :: "webhook_payment option \<Rightarrow> unit io" where
  "handlePaymentAwaitingConfirmation payment =
     await (payment_id payment) (\<lambda>pid.
     await (updatePaymentStatus pid ''PENDING'') (\<lambda>_. return ()))"

definition handlePaymentConfirmed :: "webhook_payment option \<Rightarrow> unit io" where
  "handlePaymentConfirmed payment =
     await (payment_id payment) (\<lambda>pid.
     await (updatePaymentStatus pid ''CONFIRMED'') (\<lambda>_. return ()))"

definition handlePaymentReceived :: "webhook_payment option \<Rightarrow> unit io" where
  "handlePaymentReceived payment =
     await (payment_id payment) (\<lambda>pid.
     await (updatePaymentStatus pid ''RECEIVED'') (\<lambda>success.
       if success then activateCustomerServices pid else return ()))"

definition handlePaymentOverdue :: "webhook_payment option \<Rightarrow> unit io" where
  "handlePaymentOverdue payment =
     await (payment_id payment) (\<lambda>pid.
     await (updatePaymentStatus pid ''OVERDUE'') (\<lambda>_. return ()))"

definition handlePaymentDeleted :: "webhook_payment option \<Rightarrow> unit io" where
  "handlePaymentDeleted payment =
     await (payment_id payment) (\<lambda>pid.
     await (updatePaymentStatus pid ''CANCELLED'') (\<lambda>_. return ()))"

definition handlePaymentRestored :: "webhook_payment option \<Rightarrow> unit io" where
  "handlePaymentRestored payment =
     await (payment_id payment) (\<lambda>pid.
     await (updatePaymentStatus pid ''PENDING'') (\<lambda>_. return ()))"

definition handlePaymentRefunded :: "webhook_payment option \<Rightarrow> unit io" where
  "handlePaymentRefunded payment =
     await (payment_id payment) (\<lambda>pid.
     await (updatePaymentStatus pid ''REFUNDED'') (\<lambda>_.
     deactivateCustomerServices pid))"

section \<open>The webhook route\<close>

text \<open>\<^verbatim>\<open>res.status(code).json(...)\<close>, with the text of its message or error member.\<close>

datatype response = Json nat string

fun status_code :: "response \<Rightarrow> nat" where
  "status_code (Json code text) = code"

text \<open>\<^verbatim>\<open>payment?.id || null\<close>: an absent payment and an empty id both give NULL.\<close>

fun id_or_null :: "webhook_payment option \<Rightarrow> string option" where
  "id_or_null None = None"
| "id_or_null (Some payment) = (if wp_id payment = [] then None else Some (wp_id payment))"

text \<open>
  The INSERT of the log row binds \<^verbatim>\<open>event\<close> as it was read from the body: an absent
  event is an \<^verbatim>\<open>undefined\<close> bind parameter.
\<close>

definition insert_webhook_log ::
    "string option \<Rightarrow> string option \<Rightarrow> webhook_body \<Rightarrow> result_header io" where
  "insert_webhook_log pid event body =
     (case event of
        None \<Rightarrow> undefined_parameter
      | Some event_type \<Rightarrow>
          execute (Insert_webhook_log pid event_type body)
            (\<lambda>t. let new_id = next_id (map l_id (webhook_logs t))
                  in (\<lparr>affectedRows = 1, changedRows = 0, insertId = new_id\<rparr>,
                      t\<lparr>webhook_logs := webhook_logs t @
                          [\<lparr>l_id = new_id, l_payment_id = pid, l_event_type = event_type,
                            l_payload = body, l_processed = False, l_error_message = None,
                            l_created_at = current_timestamp t\<rparr>]\<rparr>)))"

text \<open>
  \<^verbatim>\<open>ORDER BY created_at DESC LIMIT 1\<close> over the rows a WHERE clause kept: the row
  with the greatest timestamp, the later row of the table among equals. A comparison
  with NULL matches no row.
\<close>

definition latest :: "webhook_log list \<Rightarrow> webhook_log option" where
  "latest rows =
     (case rows of
        [] \<Rightarrow> None
      | r # rs \<Rightarrow> Some (fold (\<lambda>a b. if l_created_at b \<le> l_created_at a then a else b) rs r))"

definition update_latest ::
    "(webhook_log \<Rightarrow> bool) \<Rightarrow> (webhook_log \<Rightarrow> webhook_log) \<Rightarrow> tables \<Rightarrow> result_header \<times> tables" where
  "update_latest matches change t =
     (case latest (filter matches (webhook_logs t)) of
        None \<Rightarrow> (\<lparr>affectedRows = 0, changedRows = 0, insertId = 0\<rparr>, t)
      | Some chosen \<Rightarrow>
          (\<lparr>affectedRows = 1, changedRows = (if change chosen = chosen then 0 else 1), insertId = 0\<rparr>,
           t\<lparr>webhook_logs := map (\<lambda>r. if l_id r = l_id chosen then change r else r)
                                 (webhook_logs t)\<rparr>))"

definition mark_processed :: "string option \<Rightarrow> string option \<Rightarrow> result_header io" where
  "mark_processed pid event =
     (case event of
        None \<Rightarrow> undefined_parameter
      | Some event_type \<Rightarrow>
          execute (Mark_processed pid event_type)
            (update_latest
               (\<lambda>r. pid \<noteq> None \<and> l_payment_id r = pid \<and> l_event_type r = event_type)
               (\<lambda>r. r\<lparr>l_processed := True\<rparr>)))"

definition set_error_message :: "string \<Rightarrow> string option \<Rightarrow> result_header io" where
  "set_error_message text pid =
     execute (Set_error_message text pid)
       (update_latest (\<lambda>r. pid \<noteq> None \<and> l_payment_id r = pid)
          (\<lambda>r. r\<lparr>l_error_message := Some text\<rparr>))"

text \<open>
  The \<^verbatim>\<open>switch (event)\<close> of the route; an absent event matches no \<^verbatim>\<open>case\<close>.
\<close>

definition dispatch :: "string option \<Rightarrow> webhook_payment option \<Rightarrow> unit io" where
  "dispatch event payment =
     (if event = Some ''PAYMENT_CREATED'' then handlePaymentCreated payment
      else if event = Some ''PAYMENT_AWAITING_CONFIRMATION'' then
        handlePaymentAwaitingConfirmation payment
      else if event = Some ''PAYMENT_CONFIRMED'' then handlePaymentConfirmed payment
      else if event = Some ''PAYMENT_RECEIVED'' then handlePaymentReceived payment
      else if event = Some ''PAYMENT_OVERDUE'' then handlePaymentOverdue payment
      else if event = Some ''PAYMENT_DELETED'' then handlePaymentDeleted payment
      else if event = Some ''PAYMENT_RESTORED'' then handlePaymentRestored payment
      else if event = Some ''PAYMENT_REFUNDED'' then handlePaymentRefunded payment
      else return ())"

text \<open>
  \<^verbatim>\<open>router.post('/asaas', ...)\<close> after the signature middleware: the \<^verbatim>\<open>try\<close> block,
  and the \<^verbatim>\<open>catch\<close> that records the error on the latest log row of the payment
  (itself inside a \<^verbatim>\<open>try\<close>) and answers 500.
\<close>

definition asaas_try :: "webhook_body \<Rightarrow> response io" where
  "asaas_try body =
     await (insert_webhook_log (id_or_null (body_payment body)) (body_event body) body) (\<lambda>_.
     await (dispatch (body_event body) (body_payment body)) (\<lambda>_.
     await (mark_processed (id_or_null (body_payment body)) (body_event body)) (\<lambda>_.
     return (Json 200 ''Webhook processado''))))"

definition asaas_catch :: "webhook_body \<Rightarrow> error \<Rightarrow> response io" where
  "asaas_catch body error =
     await (try_catch
              (await (set_error_message (message error) (id_or_null (body_payment body)))
                 (\<lambda>_. return ()))
              (\<lambda>logError. return ()))
       (\<lambda>_. return (Json 500 ''Erro ao processar webhook''))"

definition asaas :: "webhook_body \<Rightarrow> response io" where
  "asaas body = try_catch (asaas_try body) (asaas_catch body)"

section \<open>The reprocessing route\<close>

definition select_webhook_log :: "nat \<Rightarrow> webhook_log list io" where
  "select_webhook_log webhookId =
     execute (Select_webhook_log webhookId)
       (\<lambda>t. (filter (\<lambda>r. l_id r = webhookId) (webhook_logs t), t))"

text \<open>
  The UPDATE that closes the reprocessing names \<^verbatim>\<open>webhook_logs.updated_at\<close>. Neither
  \<^verbatim>\<open>createTables\<close> (config/database.js) nor scripts/migrate.js gives the table such a
  column, so the server refuses the statement whenever it receives it.
\<close>

definition mark_reprocessed :: "nat \<Rightarrow> result_header io" where
  "mark_reprocessed webhookId =
     execute_checked (Mark_reprocessed webhookId)
       (\<lambda>t. Some ''Unknown column updated_at in field list'')
       (\<lambda>t. (\<lparr>affectedRows = 0, changedRows = 0, insertId = 0\<rparr>, t))"

text \<open>The \<^verbatim>\<open>switch (event)\<close> of the reprocessing route: three cases and a default.\<close>

definition reprocess_dispatch :: "string option \<Rightarrow> webhook_payment option \<Rightarrow> unit io" where
  "reprocess_dispatch event payment =
     (if event = Some ''PAYMENT_CREATED'' then handlePaymentCreated payment
      else if event = Some ''PAYMENT_RECEIVED'' then handlePaymentReceived payment
      else if event = Some ''PAYMENT_OVERDUE'' then handlePaymentOverdue payment
      else return ())"

fun decimal :: "nat \<Rightarrow> string" where
  "decimal n =
     (if n < 10 then [char_of (48 + n)]
      else decimal (n div 10) @ [char_of (48 + n mod 10)])"

declare decimal.simps [simp del]


definition reprocess :: "(webhook_body \<Rightarrow> error + webhook_body) \<Rightarrow> nat \<Rightarrow> response io" where
  "reprocess JSON_parse webhookId =
     try_catch
       (await (select_webhook_log webhookId) (\<lambda>webhookLog.
          case webhookLog of
            [] \<Rightarrow> return (Json 404 ''Webhook nao encontrado'')
          | log0 # _ \<Rightarrow>
              (case JSON_parse (l_payload log0) of
                 Inl error \<Rightarrow> throw error
               | Inr payload \<Rightarrow>
                   await (reprocess_dispatch (body_event payload) (body_payment payload)) (\<lambda>_.
                   await (mark_reprocessed webhookId) (\<lambda>_.
                   return (Json 200
                     (''Webhook '' @ decimal webhookId @ '' reprocessado com sucesso'')))))))
       (\<lambda>error. return (Json 500 ''Erro ao reprocessar webhook''))"

section \<open>The signature middleware\<close>

text \<open>
  \<^verbatim>\<open>verifyWebhookSignature\<close> either calls \<^verbatim>\<open>next()\<close> or answers. The secret is
  \<^verbatim>\<open>process.env.ASAAS_WEBHOOK_SECRET\<close> and the signature is
  \<^verbatim>\<open>req.headers['asaas-signature']\<close>; both may be undefined. The digest
  \<^verbatim>\<open>crypto.createHmac('sha256', secret).update(payload).digest('hex')\<close> and
  \<^verbatim>\<open>JSON.stringify\<close> belong to the platform and are parameters; a digest that
  throws is the \<^verbatim>\<open>catch\<close> branch. An empty string is falsy, as undefined is.
\<close>

datatype middleware = Next | Answer response

definition verifyWebhookSignature ::
    "(string \<Rightarrow> string \<Rightarrow> error + string) \<Rightarrow> ('body \<Rightarrow> string) \<Rightarrow>
     string option \<Rightarrow> string option \<Rightarrow> 'body \<Rightarrow> middleware" where
  "verifyWebhookSignature hmac_sha256_hex JSON_stringify webhookSecret signature body =
     (case webhookSecret of
        None \<Rightarrow> Next
      | Some secret \<Rightarrow>
          if secret = [] \<or> secret = ''your_webhook_secret_here'' then Next
          else
            (case signature of
               None \<Rightarrow> Answer (Json 401 ''Assinatura do webhook nao encontrada'')
             | Some given \<Rightarrow>
                 if given = [] then Answer (Json 401 ''Assinatura do webhook nao encontrada'')
                 else
                   (case hmac_sha256_hex secret (JSON_stringify body) of
                      Inl error \<Rightarrow> Answer (Json 500 ''Erro ao verificar assinatura'')
                    | Inr expectedSignature \<Rightarrow>
                        if given \<noteq> expectedSignature then Answer (Json 401 ''Assinatura invalida'')
                        else Next)))"

section \<open>The gateway client (services/asaasService.js)\<close>

text \<open>
  What a request to the gateway can come to: \<^verbatim>\<open>response.data\<close>; an HTTP error whose
  body is \<^verbatim>\<open>error.response.data\<close> (given here as its JSON text); or a failure with no
  response, of which only \<^verbatim>\<open>error.message\<close> is known.
\<close>

datatype 'a reply =
  Data 'a
  | Http_error string
  | No_response string

record asaas_customer =
  ac_id :: "string option"
  ac_json :: string

record pix_transaction =
  qrCode_payload :: "string option"
  qrCode_encodedImage :: "string option"
  pix_expirationDate :: "string option"

record asaas_payment =
  ap_id :: "string option"
  ap_status :: "string option"
  ap_value :: "rat option"
  ap_dueDate :: "string option"
  ap_invoiceUrl :: "string option"
  ap_bankSlipUrl :: "string option"
  ap_pixTransaction :: "pix_transaction option"
  ap_json :: string

record gateway =
  post_customers :: "customer_payload \<Rightarrow> asaas_customer reply"
  post_payments :: "payment_payload \<Rightarrow> asaas_payment reply"

definition request :: "call \<Rightarrow> 'a reply \<Rightarrow> 'a io" where
  "request c answer w =
     (let w1 = w\<lparr>trace := trace w @ [c]\<rparr> in
      case answer of
        Data d \<Rightarrow> (Inr d, w1)
      | Http_error json \<Rightarrow> (Inl (Error (''Asaas Error: '' @ json)), w1)
      | No_response m \<Rightarrow> (Inl (Error (''Erro na API Asaas: '' @ m)), w1))"




section \<open>Payment creation (routes/payment.js)\<close>

text \<open>The value that \<^verbatim>\<open>paymentSchema.validate\<close> returns for an accepted body.\<close>

record payment_request =
  nome :: string
  cpf :: string
  email :: string
  telefone :: string
  paymentMethod :: string
  planType :: string
  amount :: rat

text \<open>
  What the handler takes from outside the repository: the outcome of the Joi
  validation (the messages of \<^verbatim>\<open>error.details\<close>, or the value), \<^verbatim>\<open>JSON.stringify\<close>
  of the body, the gateway, the two readings of \<^verbatim>\<open>Date.now()\<close>, the date part of
  \<^verbatim>\<open>toISOString()\<close>, and \<^verbatim>\<open>process.env.NODE_ENV\<close>.
\<close>

record 'body platform =
  validate :: "'body \<Rightarrow> string list + payment_request"
  JSON_stringify :: "'body \<Rightarrow> string"
  asaasService :: gateway
  date_now_due :: nat
  date_now_reference :: nat
  iso_date :: "nat \<Rightarrow> string"
  node_env :: "string option"






text \<open>The members of a 200 answer; \<^verbatim>\<open>pix\<close> and \<^verbatim>\<open>creditCard\<close> are set by instrument.\<close>

record pix_data =
  qrCode :: "string option"
  qrCodeImage :: "string option"
  expirationDate :: "string option"

record credit_card_data =
  cc_invoiceUrl :: "string option"
  cc_bankSlipUrl :: "string option"

record response_data =
  success :: bool
  paymentId :: nat
  asaasPaymentId :: string
  status :: "string option"
  value_member :: "rat option"
  dueDate :: "string option"
  invoiceUrl :: "string option"
  pix :: "pix_data option"
  creditCard :: "credit_card_data option"







section \<open>Notions used in the proofs\<close>

text \<open>
  \<open>steady obs w w'\<close> relates a world to a later one: the trace has only grown, and
  if no other session interferes, none will, and the observed part \<open>obs\<close> of the
  tables is the same. \<open>preserves obs m\<close>: running \<open>m\<close> leads to such a later world.
  \<open>logged\<close> observes the columns of the log rows that are written once, at insertion.
\<close>

definition steady :: "(tables \<Rightarrow> 'o) \<Rightarrow> world \<Rightarrow> world \<Rightarrow> bool" where
  "steady obs w w' \<longleftrightarrow>
     (\<exists>tr. trace w' = trace w @ tr) \<and>
     ((\<forall>e\<in>set (schedule w). \<not> is_Concurrently e) \<longrightarrow>
        (\<forall>e\<in>set (schedule w'). \<not> is_Concurrently e) \<and> obs (db w') = obs (db w))"

definition preserves :: "(tables \<Rightarrow> 'o) \<Rightarrow> 'a io \<Rightarrow> bool" where
  "preserves obs m \<longleftrightarrow> (\<forall>w. steady obs w (snd (m w)))"

definition written_once :: "webhook_log \<Rightarrow> nat \<times> string option \<times> string \<times> webhook_body \<times> nat" where
  "written_once r = (l_id r, l_payment_id r, l_event_type r, l_payload r, l_created_at r)"

definition logged :: "tables \<Rightarrow> (nat \<times> string option \<times> string \<times> webhook_body \<times> nat) list" where
  "logged t = map written_once (webhook_logs t)"

text \<open>
  The effect of updatePaymentStatus on the tables when the database answers every
  statement and nobody else writes.
\<close>

definition applied :: "string \<Rightarrow> string \<Rightarrow> tables \<Rightarrow> tables" where
  "applied pid s t =
     (case filter (\<lambda>p. p_asaas_payment_id p = pid) (payments t) of
        [] \<Rightarrow> t
      | row # _ \<Rightarrow>
          if p_status row = s then t
          else t\<lparr>payments := map (\<lambda>p. if p_asaas_payment_id p = pid
                                      then set_status s (current_timestamp t) p else p)
                               (payments t)\<rparr>)"

section \<open>States for the examples\<close>

definition ana :: customer where
  "ana = \<lparr>c_id = 1, c_nome = ''Ana'', c_cpf = ''12345678901'', c_email = ''a@x.com'',
          c_telefone = ''11999999999'', c_asaas_customer_id = Some ''cus_1'',
          c_created_at = 100, c_updated_at = 100\<rparr>"

definition pay_123 :: payment where
  "pay_123 = \<lparr>p_id = 1, p_customer_id = 1, p_asaas_payment_id = ''pay_123'',
              p_plan_type = ''ESSENCIAL'', p_payment_method = ''PIX'', p_amount = 499 / 10,
              p_status = ''PENDING'', p_external_reference = Some ''ESSENCIAL_100000'',
              p_created_at = 100, p_updated_at = 100\<rparr>"

definition store :: tables where
  "store = \<lparr>customers = [ana], payments = [pay_123], webhook_logs = [],
            customer_features = [], payment_errors = [], current_timestamp = 200\<rparr>"

text \<open>Nothing fails and nobody else writes.\<close>

definition calm :: world where
  "calm = \<lparr>db = store, schedule = [], trace = []\<rparr>"

text \<open>Another session deletes the payment between the SELECT and the UPDATE.\<close>

definition raced :: world where
  "raced = \<lparr>db = store,
            schedule = [Proceed, Concurrently (\<lambda>t. t\<lparr>payments := []\<rparr>)],
            trace = []\<rparr>"

text \<open>
  A second payment of the same customer, and a database that holds both; nothing fails
  and nobody else writes.
\<close>

definition pay_789 :: payment where
  "pay_789 = \<lparr>p_id = 2, p_customer_id = 1, p_asaas_payment_id = ''pay_789'',
              p_plan_type = ''COMPLETO'', p_payment_method = ''CREDIT_CARD'', p_amount = 999 / 10,
              p_status = ''PENDING'', p_external_reference = Some ''COMPLETO_150000'',
              p_created_at = 150, p_updated_at = 150\<rparr>"

definition settled :: world where
  "settled = \<lparr>db = store\<lparr>payments := [pay_123, pay_789]\<rparr>, schedule = [], trace = []\<rparr>"

text \<open>The connection is lost while the UPDATE of updatePaymentStatus runs.\<close>

definition cut :: world where
  "cut = \<lparr>db = store, schedule = [Proceed, Throws ''Connection lost''], trace = []\<rparr>"

text \<open>
  A delivery of PAYMENT\_CREATED for the stored payment, met by a database that fails at
  the third statement of the route (the one that marks the log row processed).
\<close>

definition created :: webhook_body where
  "created =
     \<lparr>body_event = Some ''PAYMENT_CREATED'', body_payment = Some \<lparr>wp_id = ''pay_123''\<rparr>\<rparr>"

definition flaky :: world where
  "flaky = \<lparr>db = store, schedule = [Proceed, Proceed, Throws ''Connection lost''], trace = []\<rparr>"


definition empty_object :: webhook_body where
  "empty_object = \<lparr>body_event = None, body_payment = None\<rparr>"

text \<open>
  A delivery of PAYMENT\_CONFIRMED for the stored payment, and a database that already
  holds its log row (say, because a first processing was cut short).
\<close>

definition confirmed :: webhook_body where
  "confirmed =
     \<lparr>body_event = Some ''PAYMENT_CONFIRMED'', body_payment = Some \<lparr>wp_id = ''pay_123''\<rparr>\<rparr>"


text \<open>
  Stand-ins for the serialization and the keyed digest of the platform: the text
  depends on the body, and the digest on the key and on the text.
\<close>

definition event_text :: "webhook_body \<Rightarrow> string" where
  "event_text body = (case body_event body of None \<Rightarrow> ''{}'' | Some event_type \<Rightarrow> event_type)"

definition keyed :: "string \<Rightarrow> string \<Rightarrow> error + string" where
  "keyed key text = Inr (key @ '':'' @ text)"





section \<open>Facts about the primitives\<close>

lemma execute_quiet:
  "schedule w = [] \<Longrightarrow>
   execute q run w =
     (Inr (fst (run (db w))), w\<lparr>db := snd (run (db w)), trace := trace w @ [Sql q]\<rparr>)"
  by (cases w) (simp add: execute_def split: prod.splits)

lemma execute_cases:
  "execute q run w =
     (if is_Throws (incoming (schedule w))
      then (Inl (DbError (case incoming (schedule w) of Throws m \<Rightarrow> m | _ \<Rightarrow> [])),
            w\<lparr>schedule := tl (schedule w), trace := trace w @ [Sql q]\<rparr>)
      else (Inr (fst (run (arrive (incoming (schedule w)) (db w)))),
            w\<lparr>schedule := tl (schedule w), trace := trace w @ [Sql q],
              db := snd (run (arrive (incoming (schedule w)) (db w)))\<rparr>))"
  by (cases "incoming (schedule w)") (simp_all add: execute_def split: prod.splits)

lemma map_unmatched:
  "filter P xs = [] \<Longrightarrow> map (\<lambda>x. if P x then f x else x) xs = xs"
  by (induction xs) (auto split: if_splits)

lemma filter_after_set_status:
  "filter (\<lambda>p. p_asaas_payment_id p = pid)
     (map (\<lambda>p. if p_asaas_payment_id p = pid then set_status s now p else p) xs) =
   map (set_status s now) (filter (\<lambda>p. p_asaas_payment_id p = pid) xs)"
  by (induction xs) (simp_all add: set_status_def)

lemma find_filter:
  "find P xs = (case filter P xs of [] \<Rightarrow> None | x # _ \<Rightarrow> Some x)"
  by (induction xs) simp_all

section \<open>updatePaymentStatus\<close>

lemma updatePaymentStatus_returns:
  "\<exists>b w'. updatePaymentStatus pid s w = (Inr b, w')"
  by (auto simp add: updatePaymentStatus_def try_catch_def return_def split: prod.splits sum.splits)

lemma updatePaymentStatus_quiet:
  assumes "schedule w = []"
  shows "updatePaymentStatus pid s w =
     (case filter (\<lambda>p. p_asaas_payment_id p = pid) (payments (db w)) of
        [] \<Rightarrow> (Inr False,
               w\<lparr>trace := trace w @ [Sql (Select_payment pid), Sql Select_recent_payments]\<rparr>)
      | row # _ \<Rightarrow>
          if p_status row = s then (Inr True, w\<lparr>trace := trace w @ [Sql (Select_payment pid)]\<rparr>)
          else (Inr True,
                w\<lparr>db := (db w)\<lparr>payments :=
                       map (\<lambda>p. if p_asaas_payment_id p = pid
                                then set_status s (current_timestamp (db w)) p else p)
                         (payments (db w))\<rparr>,
                  trace := trace w @ [Sql (Select_payment pid), Sql (Update_payment_status s pid),
                                      Sql (Select_payment_status pid)]\<rparr>))"
  using assms
  by (cases w)
     (simp add: updatePaymentStatus_def updatePaymentStatus_try_def try_catch_def await_def
        return_def select_payment_def update_payment_status_def select_payment_status_def
        select_recent_payments_def execute_quiet Let_def split: list.splits)

text \<open>
  Claim C1. In a database that answers every statement and that nobody else writes to,
  for a payment stored under the external id and for any target status (in particular
  the one of each event type): applying updatePaymentStatus twice in a row returns true
  both times, the row found under the id has the target status after the first
  application, and the second application issues the existence SELECT only and leaves
  every table as the first left it.
\<close>

theorem updatePaymentStatus_idempotent:
  assumes "schedule w = []"
    and "pid \<in> p_asaas_payment_id ` set (payments (db w))"
  shows "\<exists>w1 w2. updatePaymentStatus pid s w = (Inr True, w1)
           \<and> updatePaymentStatus pid s w1 = (Inr True, w2)
           \<and> map_option p_status (find (\<lambda>p. p_asaas_payment_id p = pid) (payments (db w1))) = Some s
           \<and> db w2 = db w1
           \<and> trace w2 = trace w1 @ [Sql (Select_payment pid)]"
proof -
  obtain row rows where
    found: "filter (\<lambda>p. p_asaas_payment_id p = pid) (payments (db w)) = row # rows"
    using assms(2)
    by (cases "filter (\<lambda>p. p_asaas_payment_id p = pid) (payments (db w))")
       (auto simp: filter_empty_conv)
  show ?thesis
  proof (cases "p_status row = s")
    case True
    then show ?thesis
      using assms(1) found by (simp add: updatePaymentStatus_quiet find_filter)
  next
    case False
    then show ?thesis
      using assms(1) found
      by (simp add: updatePaymentStatus_quiet find_filter filter_after_set_status)
         (simp add: set_status_def)
  qed
qed

theorem updatePaymentStatus_idempotent_witness:
  "schedule calm = [] \<and> ''pay_123'' \<in> p_asaas_payment_id ` set (payments (db calm)) \<and>
   (\<exists>w1 w2. updatePaymentStatus ''pay_123'' ''RECEIVED'' calm = (Inr True, w1)
      \<and> updatePaymentStatus ''pay_123'' ''RECEIVED'' w1 = (Inr True, w2)
      \<and> map_option p_status (find (\<lambda>p. p_asaas_payment_id p = ''pay_123'') (payments (db w1)))
          = Some ''RECEIVED''
      \<and> db w2 = db w1
      \<and> trace w2 = trace w1 @ [Sql (Select_payment ''pay_123'')])"
proof -
  have quiet: "schedule calm = []"
    by (simp add: calm_def)
  have stored: "''pay_123'' \<in> p_asaas_payment_id ` set (payments (db calm))"
    by (simp add: calm_def store_def pay_123_def)
  show ?thesis
    using quiet stored updatePaymentStatus_idempotent [OF quiet stored, of "''RECEIVED''"]
    by simp
qed

text \<open>
  Claim C6. Let the existence check find the payment with a status other than the
  target, and let neither that SELECT nor the UPDATE throw. Then the UPDATE is the
  second statement issued, and it is matched by the external id: at the moment it runs
  (other sessions may have written in between), every row that carries the id gets the
  target status and the current timestamp as its update time and keeps every other
  column, and every other row and every other table is left as found. If no row carries
  the id at that moment (zero affected rows), updatePaymentStatus returns false, does
  not throw, and has issued exactly the SELECT and one UPDATE (no retry), the tables
  being as the UPDATE found them. Otherwise it issues the verifying SELECT and returns
  true unless that SELECT throws.
\<close>

theorem updatePaymentStatus_conditional_update:
  assumes "e1 = incoming (schedule w)" and "e2 = incoming (tl (schedule w))"
    and "e3 = incoming (tl (tl (schedule w)))"
    and "t1 = arrive e1 (db w)" and "t2 = arrive e2 t1"
    and "\<not> is_Throws e1" and "\<not> is_Throws e2"
    and "filter (\<lambda>p. p_asaas_payment_id p = pid) (payments t1) = row # rows"
    and "p_status row \<noteq> s"
  shows "updatePaymentStatus pid s w =
     (if filter (\<lambda>p. p_asaas_payment_id p = pid) (payments t2) = []
      then (Inr False,
            \<lparr>db = t2, schedule = tl (tl (schedule w)),
             trace = trace w @ [Sql (Select_payment pid), Sql (Update_payment_status s pid)]\<rparr>)
      else (Inr (\<not> is_Throws e3),
            \<lparr>db = arrive e3
                    (t2\<lparr>payments :=
                          map (\<lambda>p. if p_asaas_payment_id p = pid
                                   then p\<lparr>p_status := s, p_updated_at := current_timestamp t2\<rparr>
                                   else p) (payments t2)\<rparr>),
             schedule = tl (tl (tl (schedule w))),
             trace = trace w @ [Sql (Select_payment pid), Sql (Update_payment_status s pid),
                                Sql (Select_payment_status pid)]\<rparr>))"
proof -
  have kept_tables: "arrive e t = t" if "is_Throws e" for e t
    using that by (cases e) simp_all
  show ?thesis
    using assms(6-) kept_tables[of "incoming (tl (tl (schedule w)))"] unfolding assms(1-5)
    by (cases w)
       (simp add: map_unmatched updatePaymentStatus_def updatePaymentStatus_try_def try_catch_def
          await_def return_def select_payment_def update_payment_status_def
          select_payment_status_def execute_cases set_status_def Let_def cong: if_cong)
qed

theorem updatePaymentStatus_conditional_update_witness:
  "updatePaymentStatus ''pay_123'' ''RECEIVED'' settled =
     (Inr True,
      \<lparr>db = store\<lparr>payments := [pay_123\<lparr>p_status := ''RECEIVED'', p_updated_at := 200\<rparr>, pay_789]\<rparr>,
       schedule = [],
       trace = [Sql (Select_payment ''pay_123''),
                Sql (Update_payment_status ''RECEIVED'' ''pay_123''),
                Sql (Select_payment_status ''pay_123'')]\<rparr>) \<and>
   updatePaymentStatus ''pay_123'' ''RECEIVED'' raced =
     (Inr False,
      \<lparr>db = store\<lparr>payments := []\<rparr>, schedule = [],
       trace = [Sql (Select_payment ''pay_123''),
                Sql (Update_payment_status ''RECEIVED'' ''pay_123'')]\<rparr>)"
proof -
  have differs: "p_status pay_123 \<noteq> ''RECEIVED''"
    by (simp add: pay_123_def)
  have answered: "\<not> is_Throws Proceed" "\<not> is_Throws (Concurrently (\<lambda>t. t\<lparr>payments := []\<rparr>))"
    by simp_all
  have settled: "db settled = store\<lparr>payments := [pay_123, pay_789]\<rparr>" "schedule settled = []"
    "trace settled = []"
    by (simp_all add: settled_def)
  have events: "Proceed = incoming (schedule settled)" "Proceed = incoming (tl (schedule settled))"
    "Proceed = incoming (tl (tl (schedule settled)))"
    by (simp_all add: settled)
  have tables: "db settled = arrive Proceed (db settled)"
    by simp
  have found: "filter (\<lambda>p. p_asaas_payment_id p = ''pay_123'') (payments (db settled))
      = pay_123 # []"
    by (simp add: settled pay_123_def pay_789_def)
  have updated: "map (\<lambda>p. if p_asaas_payment_id p = ''pay_123''
                   then p\<lparr>p_status := ''RECEIVED'', p_updated_at := current_timestamp (db settled)\<rparr>
                   else p) (payments (db settled))
      = [pay_123\<lparr>p_status := ''RECEIVED'', p_updated_at := 200\<rparr>, pay_789]"
    by (simp add: settled store_def pay_123_def pay_789_def)
  note at_settled = updatePaymentStatus_conditional_update
      [OF events tables tables answered(1) answered(1) found differs, unfolded found updated]
  have first: "updatePaymentStatus ''pay_123'' ''RECEIVED'' settled =
     (Inr True,
      \<lparr>db = store\<lparr>payments := [pay_123\<lparr>p_status := ''RECEIVED'', p_updated_at := 200\<rparr>, pay_789]\<rparr>,
       schedule = [],
       trace = [Sql (Select_payment ''pay_123''),
                Sql (Update_payment_status ''RECEIVED'' ''pay_123''),
                Sql (Select_payment_status ''pay_123'')]\<rparr>)"
    unfolding at_settled by (simp add: settled)
  have raced: "db raced = store" "schedule raced = [Proceed, Concurrently (\<lambda>t. t\<lparr>payments := []\<rparr>)]"
    "trace raced = []"
    by (simp_all add: raced_def)
  have events': "Proceed = incoming (schedule raced)"
    "Concurrently (\<lambda>t. t\<lparr>payments := []\<rparr>) = incoming (tl (schedule raced))"
    "Proceed = incoming (tl (tl (schedule raced)))"
    by (simp_all add: raced)
  have tables': "db raced = arrive Proceed (db raced)"
    "store\<lparr>payments := []\<rparr> = arrive (Concurrently (\<lambda>t. t\<lparr>payments := []\<rparr>)) (db raced)"
    by (simp_all add: raced)
  have found': "filter (\<lambda>p. p_asaas_payment_id p = ''pay_123'') (payments (db raced))
      = pay_123 # []"
    by (simp add: raced store_def pay_123_def)
  note at_raced = updatePaymentStatus_conditional_update
      [OF events' tables' answered found' differs]
  have second: "updatePaymentStatus ''pay_123'' ''RECEIVED'' raced =
     (Inr False,
      \<lparr>db = store\<lparr>payments := []\<rparr>, schedule = [],
       trace = [Sql (Select_payment ''pay_123''),
                Sql (Update_payment_status ''RECEIVED'' ''pay_123'')]\<rparr>)"
    unfolding at_raced by (simp add: raced)
  show ?thesis
    using first second by (rule conjI)
qed

section \<open>What every call preserves\<close>

lemma steady_refl: "steady obs w w"
  by (simp add: steady_def)

lemma steady_trans: "steady obs a b \<Longrightarrow> steady obs b c \<Longrightarrow> steady obs a c"
  by (auto simp: steady_def)

lemma preserves_return: "preserves obs (return x)"
  by (simp add: preserves_def return_def steady_refl)

lemma preserves_throw: "preserves obs (throw e)"
  by (simp add: preserves_def throw_def steady_refl)

lemma preserves_await:
  assumes "preserves obs m" and "\<And>x. preserves obs (k x)"
  shows "preserves obs (await m k)"
  unfolding preserves_def
proof
  fix w
  obtain r w1 where m: "m w = (r, w1)"
    by (cases "m w")
  have first: "steady obs w w1"
    using assms(1) m by (auto simp: preserves_def dest: spec[of _ w])
  show "steady obs w (snd (await m k w))"
  proof (cases r)
    case (Inl e)
    then show ?thesis
      using m first by (simp add: await_def)
  next
    case (Inr x)
    have "steady obs w1 (snd (k x w1))"
      using assms(2)[of x] by (simp add: preserves_def)
    then show ?thesis
      using m first Inr by (auto simp: await_def intro: steady_trans)
  qed
qed

lemma preserves_try_catch:
  assumes "preserves obs m" and "\<And>e. preserves obs (h e)"
  shows "preserves obs (try_catch m h)"
  unfolding preserves_def
proof
  fix w
  obtain r w1 where m: "m w = (r, w1)"
    by (cases "m w")
  have first: "steady obs w w1"
    using assms(1) m by (auto simp: preserves_def dest: spec[of _ w])
  show "steady obs w (snd (try_catch m h w))"
  proof (cases r)
    case (Inr x)
    then show ?thesis
      using m first by (simp add: try_catch_def)
  next
    case (Inl e)
    have "steady obs w1 (snd (h e w1))"
      using assms(2)[of e] by (simp add: preserves_def)
    then show ?thesis
      using m first Inl by (auto simp: try_catch_def intro: steady_trans)
  qed
qed

lemma arrive_undisturbed:
  "\<forall>e\<in>set es. \<not> is_Concurrently e \<Longrightarrow> arrive (incoming es) t = t"
  by (cases es; cases "hd es") auto

lemma tl_undisturbed:
  "\<forall>e\<in>set es. \<not> is_Concurrently e \<Longrightarrow> \<forall>e\<in>set (tl es). \<not> is_Concurrently e"
  by (cases es) auto

lemma preserves_execute:
  assumes "\<And>t. obs (snd (run t)) = obs t"
  shows "preserves obs (execute q run)"
  unfolding preserves_def steady_def
  by (auto simp: execute_cases assms arrive_undisturbed dest: tl_undisturbed)

lemma execute_checked_cases:
  "execute_checked q refused run w =
     (let t = arrive (incoming (schedule w)) (db w);
          w1 = w\<lparr>schedule := tl (schedule w), trace := trace w @ [Sql q]\<rparr>
      in if is_Throws (incoming (schedule w))
         then (Inl (DbError (case incoming (schedule w) of Throws m \<Rightarrow> m | _ \<Rightarrow> [])), w1)
         else (case refused t of
                 Some m \<Rightarrow> (Inl (DbError m), w1\<lparr>db := t\<rparr>)
               | None \<Rightarrow> (Inr (fst (run t)), w1\<lparr>db := snd (run t)\<rparr>)))"
  by (cases "incoming (schedule w)")
     (simp_all add: execute_checked_def Let_def split: prod.splits option.splits)



lemma preserves_undefined_parameter: "preserves obs undefined_parameter"
  by (simp add: undefined_parameter_def preserves_throw)

lemma preserves_request: "preserves obs (request c a)"
  by (cases a) (simp_all add: preserves_def steady_def request_def)

lemmas preserves_intros =
  preserves_return preserves_throw preserves_await preserves_try_catch preserves_request

lemma preserves_updatePaymentStatus: "preserves logged (updatePaymentStatus pid s)"
  unfolding updatePaymentStatus_def updatePaymentStatus_try_def select_payment_def
    select_recent_payments_def update_payment_status_def select_payment_status_def
  by (auto intro!: preserves_intros preserves_execute split: list.splits simp: Let_def logged_def)

lemma activateCustomerServices_noop: "activateCustomerServices pid w = (Inr (), w)"
  by (simp add: activateCustomerServices_def debugTableStructure_def try_catch_def await_def
      throw_def return_def)

lemma preserves_activateCustomerServices: "preserves obs (activateCustomerServices pid)"
  by (simp add: preserves_def activateCustomerServices_noop steady_refl)

lemma preserves_deactivateCustomerServices: "preserves logged (deactivateCustomerServices pid)"
  unfolding deactivateCustomerServices_def select_payment_customer_def
  by (auto intro!: preserves_intros preserves_execute simp: logged_def)

lemma preserves_payment_id: "preserves obs (payment_id p)"
  by (cases p) (simp_all add: preserves_intros)

lemma preserves_status_handler:
  "preserves logged (await (payment_id p) (\<lambda>pid. await (updatePaymentStatus pid s) (\<lambda>_. return ())))"
  by (intro preserves_await preserves_payment_id preserves_updatePaymentStatus preserves_return)

lemma preserves_handlePaymentReceived: "preserves logged (handlePaymentReceived p)"
  unfolding handlePaymentReceived_def
  by (intro preserves_await preserves_payment_id preserves_updatePaymentStatus)
     (simp add: preserves_activateCustomerServices preserves_return)

lemma preserves_handlePaymentRefunded: "preserves logged (handlePaymentRefunded p)"
  unfolding handlePaymentRefunded_def
  by (intro preserves_await preserves_payment_id preserves_updatePaymentStatus
      preserves_deactivateCustomerServices)

lemma preserves_dispatch: "preserves logged (dispatch ev p)"
  by (simp add: dispatch_def preserves_handlePaymentReceived preserves_handlePaymentRefunded
      handlePaymentCreated_def handlePaymentAwaitingConfirmation_def
      handlePaymentConfirmed_def handlePaymentOverdue_def
      handlePaymentDeleted_def handlePaymentRestored_def
      preserves_status_handler preserves_return)

lemma update_latest_logged:
  assumes "\<And>r. written_once (c r) = written_once r"
  shows "logged (snd (update_latest m c t)) = logged t"
  using assms by (auto simp: logged_def update_latest_def split: option.splits)

lemma preserves_mark_processed: "preserves logged (mark_processed pid ev)"
proof (cases ev)
  case None
  then show ?thesis
    by (simp add: mark_processed_def preserves_undefined_parameter)
next
  case (Some event_type)
  then show ?thesis
    unfolding mark_processed_def
    by (simp, intro preserves_execute update_latest_logged) (simp add: written_once_def)
qed

lemma preserves_set_error_message: "preserves logged (set_error_message text pid)"
  unfolding set_error_message_def
  by (rule preserves_execute) (rule update_latest_logged, simp add: written_once_def)

lemma asaas_catch_returns:
  "\<exists>w'. asaas_catch body e w = (Inr (Json 500 ''Erro ao processar webhook''), w')"
  by (auto simp: asaas_catch_def await_def try_catch_def return_def split: prod.splits sum.splits)

lemma preserves_asaas_catch: "preserves logged (asaas_catch body e)"
  unfolding asaas_catch_def
  by (auto intro!: preserves_intros preserves_set_error_message)

text \<open>
  Once the INSERT into the log has been attempted, the rest of the route is a call that
  returns a response and preserves the log.
\<close>

lemma asaas_after_insert:
  "\<exists>m. preserves logged m \<and>
     (\<exists>r w'. m (snd (insert_webhook_log (id_or_null (body_payment body)) (body_event body) body w))
               = (Inr r, w')
        \<and> asaas body w = (Inr r, w'))"
proof -
  let ?ins = "insert_webhook_log (id_or_null (body_payment body)) (body_event body) body"
  let ?rest = "await (dispatch (body_event body) (body_payment body)) (\<lambda>_.
     await (mark_processed (id_or_null (body_payment body)) (body_event body)) (\<lambda>_.
     return (Json 200 ''Webhook processado'')))"
  obtain r1 w1 where ins: "?ins w = (r1, w1)"
    by (cases "?ins w")
  have asaas: "asaas body = try_catch (await ?ins (\<lambda>_. ?rest)) (asaas_catch body)"
    by (simp add: asaas_def asaas_try_def)
  show ?thesis
  proof (cases r1)
    case (Inl e)
    have "preserves logged (asaas_catch body e)"
      by (rule preserves_asaas_catch)
    moreover have "asaas body w = asaas_catch body e w1"
      using ins Inl by (simp add: asaas try_catch_def await_def)
    ultimately show ?thesis
      using ins asaas_catch_returns[of body e w1]
      by (intro exI[of _ "asaas_catch body e"]) auto
  next
    case (Inr x)
    let ?m = "try_catch ?rest (asaas_catch body)"
    have "preserves logged ?m"
      by (auto intro!: preserves_intros preserves_dispatch preserves_mark_processed
          preserves_asaas_catch)
    moreover have "asaas body w = ?m w1"
      using ins Inr by (simp add: asaas try_catch_def await_def)
    moreover have "\<exists>r w'. ?m w1 = (Inr r, w')"
    proof (cases "?rest w1")
      case (Pair r2 w2)
      show ?thesis
      proof (cases r2)
        case (Inl e)
        obtain w3 where "asaas_catch body e w2 = (Inr (Json 500 ''Erro ao processar webhook''), w3)"
          using asaas_catch_returns[of body e w2] by blast
        then show ?thesis
          using Pair Inl by (simp add: try_catch_def)
      next
        case (Inr x2)
        then show ?thesis
          using Pair by (simp add: try_catch_def)
      qed
    qed
    ultimately show ?thesis
      using ins by (intro exI[of _ ?m]) auto
  qed
qed

text \<open>
  Claim C5. A request whose body carries an event type is answered, and the first call
  the route makes is the INSERT of the raw event into webhook\_logs, with the payment id
  of the body (NULL when the body has no payment or the id is empty), the event type,
  and the body as payload: every SELECT or UPDATE of the dispatch comes after it. If
  that INSERT does not throw and no other session writes during the request, then
  whatever fails later (the handler, the status update, the mark-processed step), the
  table holds at the end the rows it held, with the payment id, event type and payload
  they had, followed by one new row with the payment id, event type and payload of the
  request.
\<close>

theorem webhook_logged_first:
  assumes "body_event body = Some ev"
    and "pid = (case body_payment body of
                  None \<Rightarrow> None
                | Some p \<Rightarrow> if wp_id p = [] then None else Some (wp_id p))"
  shows "\<exists>r w' tr. asaas body w = (Inr r, w')
     \<and> trace w' = trace w @ Sql (Insert_webhook_log pid ev body) # tr
     \<and> ((\<forall>e\<in>set (schedule w). \<not> is_Concurrently e) \<and> \<not> is_Throws (incoming (schedule w)) \<longrightarrow>
          map (\<lambda>row. (l_payment_id row, l_event_type row, l_payload row)) (webhook_logs (db w')) =
          map (\<lambda>row. (l_payment_id row, l_event_type row, l_payload row)) (webhook_logs (db w))
            @ [(pid, ev, body)])"
proof -
  have pid: "id_or_null (body_payment body) = pid"
    using assms(2) by (cases "body_payment body") simp_all
  let ?ins = "insert_webhook_log (id_or_null (body_payment body)) (body_event body) body"
  obtain m r w' where m: "preserves logged m" "m (snd (?ins w)) = (Inr r, w')" "asaas body w = (Inr r, w')"
    using asaas_after_insert[of body w] by blast
  let ?w1 = "snd (?ins w)"
  have st: "steady logged ?w1 w'"
    using m(1,2) by (auto simp: preserves_def dest: spec[of _ ?w1])
  have tr1: "trace ?w1 = trace w @ [Sql (Insert_webhook_log pid ev body)]"
    by (simp add: insert_webhook_log_def execute_cases assms(1) pid)
  from st tr1 obtain tr where tr: "trace w' = trace w @ Sql (Insert_webhook_log pid ev body) # tr"
    by (auto simp: steady_def)
  have logs: "map (\<lambda>row. (l_payment_id row, l_event_type row, l_payload row)) (webhook_logs (db w')) =
          map (\<lambda>row. (l_payment_id row, l_event_type row, l_payload row)) (webhook_logs (db w))
            @ [(pid, ev, body)]"
    if und: "\<forall>e\<in>set (schedule w). \<not> is_Concurrently e"
      and ok: "\<not> is_Throws (incoming (schedule w))"
  proof -
    have und1: "\<forall>e\<in>set (schedule ?w1). \<not> is_Concurrently e"
      using und by (auto simp: insert_webhook_log_def execute_cases assms(1) dest: tl_undisturbed)
    have logs1: "\<exists>nid. webhook_logs (db ?w1) = webhook_logs (db w) @
        [\<lparr>l_id = nid, l_payment_id = pid, l_event_type = ev, l_payload = body,
          l_processed = False, l_error_message = None, l_created_at = current_timestamp (db w)\<rparr>]"
      using und ok
      by (simp add: insert_webhook_log_def execute_cases arrive_undisturbed Let_def assms(1) pid)
    have eq: "map written_once (webhook_logs (db w')) = map written_once (webhook_logs (db ?w1))"
      using st und1 by (simp add: steady_def logged_def)
    from logs1 obtain nid where l1: "webhook_logs (db ?w1) = webhook_logs (db w) @
        [\<lparr>l_id = nid, l_payment_id = pid, l_event_type = ev, l_payload = body,
          l_processed = False, l_error_message = None, l_created_at = current_timestamp (db w)\<rparr>]"
      by blast
    have eq': "map written_once (webhook_logs (db w')) = map written_once (webhook_logs (db w)) @
        [(nid, pid, ev, body, current_timestamp (db w))]"
      unfolding eq l1 by (simp add: written_once_def)
    have columns: "(\<lambda>row. (l_payment_id row, l_event_type row, l_payload row)) =
        (\<lambda>(i, p, e, b, c). (p, e, b)) \<circ> written_once"
      by (rule ext) (simp add: written_once_def)
    show ?thesis
      using arg_cong[OF eq', of "map (\<lambda>(i, p, e, b, c). (p, e, b))"]
      by (simp add: columns)
  qed
  show ?thesis
    apply (rule exI[of _ r], rule exI[of _ w'], rule exI[of _ tr])
    using m(3) tr logs by simp
qed

theorem webhook_logged_first_witness:
  "body_event created = Some ''PAYMENT_CREATED'' \<and>
   body_payment created = Some \<lparr>wp_id = ''pay_123''\<rparr> \<and>
   schedule flaky = [Proceed, Proceed, Throws ''Connection lost''] \<and>
   (\<exists>w' tr. asaas created flaky = (Inr (Json 500 ''Erro ao processar webhook''), w')
      \<and> trace w' = Sql (Insert_webhook_log (Some ''pay_123'') ''PAYMENT_CREATED'' created) # tr
      \<and> map (\<lambda>row. (l_payment_id row, l_event_type row, l_payload row)) (webhook_logs (db w')) =
          [(Some ''pay_123'', ''PAYMENT_CREATED'', created)])"
proof -
  have body: "body_event created = Some ''PAYMENT_CREATED''"
    "body_payment created = Some \<lparr>wp_id = ''pay_123''\<rparr>"
    by (simp_all add: created_def)
  have pid: "Some ''pay_123'' = (case body_payment created of
                  None \<Rightarrow> None
                | Some p \<Rightarrow> if wp_id p = [] then None else Some (wp_id p))"
    by (simp add: body)
  have flaky: "schedule flaky = [Proceed, Proceed, Throws ''Connection lost'']"
    "trace flaky = []" "webhook_logs (db flaky) = []"
    by (simp_all add: flaky_def store_def)
  have stored: "filter (\<lambda>p. p_asaas_payment_id p = ''pay_123'') (payments store) = [pay_123]"
    "p_status pay_123 = ''PENDING''"
    by (simp_all add: store_def pay_123_def)
  have answer: "fst (asaas created flaky) = Inr (Json 500 ''Erro ao processar webhook'')"
    by (simp add: asaas_def asaas_try_def asaas_catch_def try_catch_def await_def return_def
        dispatch_def handlePaymentCreated_def updatePaymentStatus_def updatePaymentStatus_try_def
        select_payment_def insert_webhook_log_def mark_processed_def set_error_message_def
        execute_def flaky_def body stored Let_def split: prod.splits)
  show ?thesis
    using body flaky answer webhook_logged_first [OF body(1) pid, of flaky]
    by auto
qed

text \<open>
  A body without an event member: the INSERT throws in the driver, the route answers
  500, and the only statement that reaches the database is the UPDATE of the
  \<^verbatim>\<open>catch\<close> block; no row is logged.
\<close>

theorem eventless_request_not_logged:
  "asaas empty_object calm =
     (Inr (Json 500 ''Erro ao processar webhook''),
      calm\<lparr>trace :=
        [Sql (Set_error_message
           ''Bind parameters must not contain undefined. To pass SQL NULL specify JS null''
           None)]\<rparr>)
   \<and> webhook_logs (db calm) = []"
  by (simp add: asaas_def asaas_try_def asaas_catch_def try_catch_def await_def return_def
      throw_def insert_webhook_log_def undefined_parameter_def set_error_message_def
      update_latest_def latest_def execute_def empty_object_def calm_def store_def)
section \<open>The dispatch never rejects\<close>

lemma status_handler_returns:
  "\<exists>w'. await (return (wp_id p)) (\<lambda>pid. await (updatePaymentStatus pid s) (\<lambda>_. return ())) w
          = (Inr (), w')"
  using updatePaymentStatus_returns[of "wp_id p" s w]
  by (auto simp: await_def return_def)

lemma deactivateCustomerServices_returns:
  "\<exists>w'. deactivateCustomerServices pid w = (Inr (), w')"
  by (auto simp: deactivateCustomerServices_def try_catch_def await_def return_def
      split: prod.splits sum.splits)

lemma handlePaymentReceived_returns:
  "\<exists>w'. handlePaymentReceived (Some p) w = (Inr (), w')"
  using updatePaymentStatus_returns[of "wp_id p" "''RECEIVED''" w]
  by (auto simp: handlePaymentReceived_def await_def return_def activateCustomerServices_noop)

lemma handlePaymentRefunded_returns:
  "\<exists>w'. handlePaymentRefunded (Some p) w = (Inr (), w')"
proof -
  obtain b w1 where "updatePaymentStatus (wp_id p) ''REFUNDED'' w = (Inr b, w1)"
    using updatePaymentStatus_returns by blast
  then show ?thesis
    using deactivateCustomerServices_returns[of "wp_id p" w1]
    by (auto simp: handlePaymentRefunded_def await_def return_def)
qed

lemma dispatch_returns: "\<exists>w'. dispatch ev (Some p) w = (Inr (), w')"
  by (simp add: dispatch_def handlePaymentReceived_returns handlePaymentRefunded_returns
      handlePaymentCreated_def handlePaymentAwaitingConfirmation_def
      handlePaymentConfirmed_def handlePaymentOverdue_def
      handlePaymentDeleted_def handlePaymentRestored_def
      status_handler_returns)
     (simp add: return_def)

lemma updatePaymentStatus_outcome:
  "fst (updatePaymentStatus pid s w) =
     Inr (\<not> is_Throws (incoming (schedule w)) \<and>
          (case filter (\<lambda>p. p_asaas_payment_id p = pid)
                  (payments (arrive (incoming (schedule w)) (db w))) of
             [] \<Rightarrow> False
           | row # _ \<Rightarrow>
               p_status row = s \<or>
               (\<not> is_Throws (incoming (tl (schedule w))) \<and>
                filter (\<lambda>p. p_asaas_payment_id p = pid)
                  (payments (arrive (incoming (tl (schedule w)))
                     (arrive (incoming (schedule w)) (db w)))) \<noteq> [] \<and>
                \<not> is_Throws (incoming (tl (tl (schedule w)))))))"
  by (cases w)
     (simp add: updatePaymentStatus_def updatePaymentStatus_try_def try_catch_def
        await_def return_def select_payment_def update_payment_status_def
        select_payment_status_def select_recent_payments_def execute_cases Let_def
        split: list.splits)

text \<open>
  Claim C10. For every external payment id, every target status and every world, that
  is, whatever each database call does (runs, throws, or runs after a concurrent
  change), updatePaymentStatus returns a boolean and never throws. The boolean is false
  when the existence SELECT throws; false when that SELECT finds no row under the id;
  true when the first row found already has the target status; otherwise false when the
  UPDATE throws, false when no row carries the id at the moment the UPDATE runs (zero
  affected rows), false when the verifying SELECT throws, and true in the remaining
  case, where the UPDATE went through and the verifying SELECT answered. Hence the
  dispatch of an event that carries a payment object never rejects: a failure inside
  updatePaymentStatus cannot send the route into its 500 branch.
\<close>

theorem updatePaymentStatus_total:
  "(\<exists>w'. updatePaymentStatus pid s w =
      (Inr (\<not> is_Throws (incoming (schedule w)) \<and>
            (case filter (\<lambda>p. p_asaas_payment_id p = pid)
                    (payments (arrive (incoming (schedule w)) (db w))) of
               [] \<Rightarrow> False
             | row # _ \<Rightarrow>
                 p_status row = s \<or>
                 (\<not> is_Throws (incoming (tl (schedule w))) \<and>
                  filter (\<lambda>p. p_asaas_payment_id p = pid)
                    (payments (arrive (incoming (tl (schedule w)))
                       (arrive (incoming (schedule w)) (db w)))) \<noteq> [] \<and>
                  \<not> is_Throws (incoming (tl (tl (schedule w))))))), w'))
   \<and> (\<exists>w'. dispatch ev (Some p) w = (Inr (), w'))"
proof
  show "\<exists>w'. updatePaymentStatus pid s w =
      (Inr (\<not> is_Throws (incoming (schedule w)) \<and>
            (case filter (\<lambda>p. p_asaas_payment_id p = pid)
                    (payments (arrive (incoming (schedule w)) (db w))) of
               [] \<Rightarrow> False
             | row # _ \<Rightarrow>
                 p_status row = s \<or>
                 (\<not> is_Throws (incoming (tl (schedule w))) \<and>
                  filter (\<lambda>p. p_asaas_payment_id p = pid)
                    (payments (arrive (incoming (tl (schedule w)))
                       (arrive (incoming (schedule w)) (db w)))) \<noteq> [] \<and>
                  \<not> is_Throws (incoming (tl (tl (schedule w))))))), w')"
    using updatePaymentStatus_outcome[of pid s w]
    by (cases "updatePaymentStatus pid s w") simp
  show "\<exists>w'. dispatch ev (Some p) w = (Inr (), w')"
    by (rule dispatch_returns)
qed

theorem updatePaymentStatus_total_witness:
  "(\<exists>w'. updatePaymentStatus ''pay_123'' ''RECEIVED'' cut = (Inr False, w'))
   \<and> (\<exists>w'. updatePaymentStatus ''pay_123'' ''RECEIVED'' calm = (Inr True, w'))
   \<and> (\<exists>w'. updatePaymentStatus ''pay_123'' ''PENDING'' cut = (Inr True, w'))
   \<and> (\<exists>w'. updatePaymentStatus ''pay_999'' ''RECEIVED'' calm = (Inr False, w'))
   \<and> (\<exists>w'. dispatch (Some ''PAYMENT_RECEIVED'') (Some \<lparr>wp_id = ''pay_123''\<rparr>) cut = (Inr (), w'))"
proof -
  have cut: "schedule cut = [Proceed, Throws ''Connection lost'']" "db cut = store"
    by (simp_all add: cut_def)
  have calm: "schedule calm = []" "db calm = store"
    by (simp_all add: calm_def)
  have stored: "filter (\<lambda>p. p_asaas_payment_id p = ''pay_123'') (payments store) = [pay_123]"
    "filter (\<lambda>p. p_asaas_payment_id p = ''pay_999'') (payments store) = []"
    "p_status pay_123 = ''PENDING''"
    by (simp_all add: store_def pay_123_def)
  show ?thesis
    using updatePaymentStatus_total [of "''pay_123''" "''RECEIVED''" cut
        "Some ''PAYMENT_RECEIVED''" "\<lparr>wp_id = ''pay_123''\<rparr>"]
      updatePaymentStatus_total [of "''pay_123''" "''RECEIVED''" calm
        "Some ''PAYMENT_RECEIVED''" "\<lparr>wp_id = ''pay_123''\<rparr>"]
      updatePaymentStatus_total [of "''pay_123''" "''PENDING''" cut
        "Some ''PAYMENT_RECEIVED''" "\<lparr>wp_id = ''pay_123''\<rparr>"]
      updatePaymentStatus_total [of "''pay_999''" "''RECEIVED''" calm
        "Some ''PAYMENT_RECEIVED''" "\<lparr>wp_id = ''pay_123''\<rparr>"]
    by (simp add: cut calm stored)
qed

section \<open>The route in a quiet database\<close>

lemma applied_other_tables:
  "webhook_logs (applied pid s t) = webhook_logs t"
  "customers (applied pid s t) = customers t"
  "customer_features (applied pid s t) = customer_features t"
  "payment_errors (applied pid s t) = payment_errors t"
  "current_timestamp (applied pid s t) = current_timestamp t"
  by (simp_all add: applied_def split: list.splits)


lemma applied_payments_frame:
  "payments (applied pid s (t\<lparr>webhook_logs := l\<rparr>)) = payments (applied pid s t)"
  by (simp add: applied_def split: list.splits)

lemma applied_status:
  assumes "pid \<in> p_asaas_payment_id ` set (payments t)"
  shows "map_option p_status (find (\<lambda>p. p_asaas_payment_id p = pid) (payments (applied pid s t)))
         = Some s"
proof -
  obtain row rows where
    found: "filter (\<lambda>p. p_asaas_payment_id p = pid) (payments t) = row # rows"
    using assms
    by (cases "filter (\<lambda>p. p_asaas_payment_id p = pid) (payments t)")
       (auto simp: filter_empty_conv)
  show ?thesis
  proof (cases "p_status row = s")
    case True
    then show ?thesis
      using found by (simp add: applied_def find_filter)
  next
    case False
    then show ?thesis
      using found
      by (simp add: applied_def find_filter filter_after_set_status) (simp add: set_status_def)
  qed
qed

lemma updatePaymentStatus_applied:
  assumes "schedule w = []"
  shows "\<exists>tr. updatePaymentStatus pid s w =
           (Inr (filter (\<lambda>p. p_asaas_payment_id p = pid) (payments (db w)) \<noteq> []),
            w\<lparr>db := applied pid s (db w), trace := trace w @ tr\<rparr>)"
  using assms
  by (cases w) (auto simp: updatePaymentStatus_quiet applied_def split: list.splits)

lemma status_handler_quiet:
  assumes "schedule w = []"
  shows "\<exists>tr. await (return pid) (\<lambda>pid. await (updatePaymentStatus pid s) (\<lambda>_. return ())) w =
           (Inr (), w\<lparr>db := applied pid s (db w), trace := trace w @ tr\<rparr>)"
proof -
  obtain tr where
    "updatePaymentStatus pid s w =
       (Inr (filter (\<lambda>p. p_asaas_payment_id p = pid) (payments (db w)) \<noteq> []),
        w\<lparr>db := applied pid s (db w), trace := trace w @ tr\<rparr>)"
    using updatePaymentStatus_applied[OF assms, of pid s] by (rule exE)
  then have "await (return pid) (\<lambda>pid. await (updatePaymentStatus pid s) (\<lambda>_. return ())) w =
      (Inr (), w\<lparr>db := applied pid s (db w), trace := trace w @ tr\<rparr>)"
    by (simp add: await_def return_def)
  then show ?thesis
    by (rule exI[of _ tr])
qed

lemma handlePaymentReceived_quiet:
  assumes "schedule w = []"
  shows "\<exists>tr. handlePaymentReceived (Some p) w =
           (Inr (), w\<lparr>db := applied (wp_id p) ''RECEIVED'' (db w), trace := trace w @ tr\<rparr>)"
proof -
  obtain tr where
    "updatePaymentStatus (wp_id p) ''RECEIVED'' w =
       (Inr (filter (\<lambda>r. p_asaas_payment_id r = wp_id p) (payments (db w)) \<noteq> []),
        w\<lparr>db := applied (wp_id p) ''RECEIVED'' (db w), trace := trace w @ tr\<rparr>)"
    using updatePaymentStatus_applied[OF assms, of "wp_id p" "''RECEIVED''"] by (rule exE)
  then have "handlePaymentReceived (Some p) w =
      (Inr (), w\<lparr>db := applied (wp_id p) ''RECEIVED'' (db w), trace := trace w @ tr\<rparr>)"
    by (simp add: handlePaymentReceived_def await_def return_def activateCustomerServices_noop)
  then show ?thesis
    by (rule exI[of _ tr])
qed

lemma deactivateCustomerServices_quiet:
  assumes "schedule w = []"
  shows "deactivateCustomerServices pid w =
           (Inr (), w\<lparr>trace := trace w @ [Sql (Select_payment_customer 0 pid)]\<rparr>)"
  using assms
  by (cases w)
     (simp add: deactivateCustomerServices_def select_payment_customer_def try_catch_def
        await_def return_def execute_quiet)

lemma handlePaymentRefunded_quiet:
  assumes "schedule w = []"
  shows "\<exists>tr. handlePaymentRefunded (Some p) w =
           (Inr (), w\<lparr>db := applied (wp_id p) ''REFUNDED'' (db w), trace := trace w @ tr\<rparr>)"
proof -
  obtain tr where
    u: "updatePaymentStatus (wp_id p) ''REFUNDED'' w =
          (Inr (filter (\<lambda>r. p_asaas_payment_id r = wp_id p) (payments (db w)) \<noteq> []),
           w\<lparr>db := applied (wp_id p) ''REFUNDED'' (db w), trace := trace w @ tr\<rparr>)"
    using updatePaymentStatus_applied[OF assms, of "wp_id p" "''REFUNDED''"] by (rule exE)
  let ?w1 = "w\<lparr>db := applied (wp_id p) ''REFUNDED'' (db w), trace := trace w @ tr\<rparr>"
  have first: "handlePaymentRefunded (Some p) w = deactivateCustomerServices (wp_id p) ?w1"
    using u by (simp add: handlePaymentRefunded_def await_def return_def)
  have q1: "schedule ?w1 = []"
    using assms by simp
  have "deactivateCustomerServices (wp_id p) ?w1 =
      (Inr (), w\<lparr>db := applied (wp_id p) ''REFUNDED'' (db w),
                 trace := trace w @ (tr @ [Sql (Select_payment_customer 0 (wp_id p))])\<rparr>)"
    using deactivateCustomerServices_quiet[of ?w1 "wp_id p"] q1 by simp
  then have "handlePaymentRefunded (Some p) w =
      (Inr (), w\<lparr>db := applied (wp_id p) ''REFUNDED'' (db w),
                 trace := trace w @ (tr @ [Sql (Select_payment_customer 0 (wp_id p))])\<rparr>)"
    by (simp only: first)
  then show ?thesis
    by (rule exI[of _ "tr @ [Sql (Select_payment_customer 0 (wp_id p))]"])
qed

text \<open>The status that the handler of each \<^verbatim>\<open>case\<close> of the switch hands to updatePaymentStatus.\<close>

lemma dispatch_quiet:
  assumes "schedule w = []"
    and "(ev, s) \<in> set [(''PAYMENT_CREATED'', ''PENDING''),
                        (''PAYMENT_AWAITING_CONFIRMATION'', ''PENDING''),
                        (''PAYMENT_CONFIRMED'', ''CONFIRMED''),
                        (''PAYMENT_RECEIVED'', ''RECEIVED''),
                        (''PAYMENT_OVERDUE'', ''OVERDUE''),
                        (''PAYMENT_DELETED'', ''CANCELLED''),
                        (''PAYMENT_RESTORED'', ''PENDING''),
                        (''PAYMENT_REFUNDED'', ''REFUNDED'')]"
  shows "\<exists>tr. dispatch (Some ev) (Some p) w =
           (Inr (), w\<lparr>db := applied (wp_id p) s (db w), trace := trace w @ tr\<rparr>)"
proof -
  have "ev = ''PAYMENT_CREATED'' \<and> s = ''PENDING''
      \<or> ev = ''PAYMENT_AWAITING_CONFIRMATION'' \<and> s = ''PENDING''
      \<or> ev = ''PAYMENT_CONFIRMED'' \<and> s = ''CONFIRMED''
      \<or> ev = ''PAYMENT_RECEIVED'' \<and> s = ''RECEIVED''
      \<or> ev = ''PAYMENT_OVERDUE'' \<and> s = ''OVERDUE''
      \<or> ev = ''PAYMENT_DELETED'' \<and> s = ''CANCELLED''
      \<or> ev = ''PAYMENT_RESTORED'' \<and> s = ''PENDING''
      \<or> ev = ''PAYMENT_REFUNDED'' \<and> s = ''REFUNDED''"
    using assms(2) by simp
  then show ?thesis
  proof (elim disjE conjE, goal_cases)
    case 1
    then show ?case
      using status_handler_quiet[OF assms(1), of "wp_id p" s] by (simp add: dispatch_def handlePaymentCreated_def)
  next
    case 2
    then show ?case
      using status_handler_quiet[OF assms(1), of "wp_id p" s]
      by (simp add: dispatch_def handlePaymentAwaitingConfirmation_def)
  next
    case 3
    then show ?case
      using status_handler_quiet[OF assms(1), of "wp_id p" s] by (simp add: dispatch_def handlePaymentConfirmed_def)
  next
    case 4
    then show ?case
      using handlePaymentReceived_quiet[OF assms(1), of p] by (simp add: dispatch_def)
  next
    case 5
    then show ?case
      using status_handler_quiet[OF assms(1), of "wp_id p" s] by (simp add: dispatch_def handlePaymentOverdue_def)
  next
    case 6
    then show ?case
      using status_handler_quiet[OF assms(1), of "wp_id p" s] by (simp add: dispatch_def handlePaymentDeleted_def)
  next
    case 7
    then show ?case
      using status_handler_quiet[OF assms(1), of "wp_id p" s] by (simp add: dispatch_def handlePaymentRestored_def)
  next
    case 8
    then show ?case
      using handlePaymentRefunded_quiet[OF assms(1), of p] by (simp add: dispatch_def)
  qed
qed

lemma dispatch_unrecognized:
  assumes "ev \<notin> Some ` set [''PAYMENT_CREATED'', ''PAYMENT_AWAITING_CONFIRMATION'', ''PAYMENT_CONFIRMED'',
                      ''PAYMENT_RECEIVED'', ''PAYMENT_OVERDUE'', ''PAYMENT_DELETED'',
                      ''PAYMENT_RESTORED'', ''PAYMENT_REFUNDED'']"
  shows "dispatch ev p = return ()"
  using assms by (cases ev) (simp_all add: dispatch_def)

lemma update_latest_other_tables:
  "payments (snd (update_latest m c t)) = payments t"
  "customers (snd (update_latest m c t)) = customers t"
  "customer_features (snd (update_latest m c t)) = customer_features t"
  by (simp_all add: update_latest_def split: option.splits)

lemma update_latest_length:
  "length (webhook_logs (snd (update_latest m c t))) = length (webhook_logs t)"
  by (simp add: update_latest_def split: option.splits)

text \<open>
  The route when nothing fails: the log row is appended, the dispatch runs on the
  tables so extended, and a row of the log is marked.
\<close>

lemma asaas_quiet:
  assumes quiet: "schedule w = []"
    and event: "body_event body = Some ev"
    and step: "\<And>w1. schedule w1 = [] \<Longrightarrow>
        \<exists>tr. dispatch (body_event body) (body_payment body) w1 =
               (Inr (), w1\<lparr>db := change (db w1), trace := trace w1 @ tr\<rparr>)"
  shows "\<exists>w' matches flag.
           asaas body w = (Inr (Json 200 ''Webhook processado''), w') \<and>
           (\<forall>r. written_once (flag r) = written_once r) \<and>
           db w' = snd (update_latest matches flag
                     (change ((db w)\<lparr>webhook_logs := webhook_logs (db w) @
                        [\<lparr>l_id = next_id (map l_id (webhook_logs (db w))),
                          l_payment_id = id_or_null (body_payment body),
                          l_event_type = ev, l_payload = body,
                          l_processed = False, l_error_message = None,
                          l_created_at = current_timestamp (db w)\<rparr>]\<rparr>)))"
proof -
  let ?t1 = "(db w)\<lparr>webhook_logs := webhook_logs (db w) @
                        [\<lparr>l_id = next_id (map l_id (webhook_logs (db w))),
                          l_payment_id = id_or_null (body_payment body),
                          l_event_type = ev, l_payload = body,
                          l_processed = False, l_error_message = None,
                          l_created_at = current_timestamp (db w)\<rparr>]\<rparr>"
  let ?q = "Insert_webhook_log (id_or_null (body_payment body)) ev body"
  let ?w1 = "w\<lparr>db := ?t1, trace := trace w @ [Sql ?q]\<rparr>"
  have ins: "\<exists>h. insert_webhook_log (id_or_null (body_payment body)) (body_event body) body w
        = (Inr h, ?w1)"
    using quiet by (simp add: insert_webhook_log_def execute_quiet Let_def event)
  have q1: "schedule ?w1 = []"
    using quiet by simp
  obtain tr where d: "dispatch (body_event body) (body_payment body) ?w1 =
      (Inr (), ?w1\<lparr>db := change (db ?w1), trace := trace ?w1 @ tr\<rparr>)"
    using step[OF q1] by blast
  let ?w2 = "?w1\<lparr>db := change (db ?w1), trace := trace ?w1 @ tr\<rparr>"
  have q2: "schedule ?w2 = []"
    using quiet by simp
  let ?matches = "\<lambda>r. id_or_null (body_payment body) \<noteq> None
      \<and> l_payment_id r = id_or_null (body_payment body) \<and> l_event_type r = ev"
  let ?flag = "\<lambda>r. r\<lparr>l_processed := True\<rparr>"
  obtain h1 where ins1:
    "insert_webhook_log (id_or_null (body_payment body)) (body_event body) body w = (Inr h1, ?w1)"
    using ins by blast
  let ?w3 = "?w2\<lparr>db := snd (update_latest ?matches ?flag (db ?w2)),
                 trace := trace ?w2 @ [Sql (Mark_processed (id_or_null (body_payment body)) ev)]\<rparr>"
  have mark: "mark_processed (id_or_null (body_payment body)) (body_event body) ?w2
        = (Inr (fst (update_latest ?matches ?flag (db ?w2))), ?w3)"
    using q2 by (simp add: mark_processed_def execute_quiet event)
  have "asaas body w = (Inr (Json 200 ''Webhook processado''), ?w3)"
    unfolding asaas_def asaas_try_def try_catch_def await_def return_def
    by (simp only: ins1 d mark prod.case sum.case)
  moreover have "db ?w3 = snd (update_latest ?matches ?flag (change ?t1))"
    by simp
  moreover have "\<forall>r. written_once (?flag r) = written_once r"
    by (simp add: written_once_def)
  ultimately show ?thesis
    by (intro exI[of _ ?w3] exI[of _ ?matches] exI[of _ ?flag] conjI)
qed

section \<open>Statements that leave the payments alone\<close>

lemma preserves_payments_insert_webhook_log:
  "preserves payments (insert_webhook_log pid ev body)"
  unfolding insert_webhook_log_def
  by (cases ev) (simp_all add: preserves_undefined_parameter preserves_execute Let_def)

lemma preserves_payments_mark_processed: "preserves payments (mark_processed pid ev)"
  unfolding mark_processed_def
  by (cases ev)
     (simp_all add: preserves_undefined_parameter preserves_execute update_latest_other_tables)

lemma preserves_payments_set_error_message: "preserves payments (set_error_message text pid)"
  unfolding set_error_message_def
  by (rule preserves_execute) (rule update_latest_other_tables)

lemma preserves_payments_asaas_catch: "preserves payments (asaas_catch body e)"
  unfolding asaas_catch_def
  by (intro preserves_await preserves_try_catch preserves_return
      preserves_payments_set_error_message)

lemma preserves_payments_unrecognized:
  assumes "ev \<notin> Some ` set [''PAYMENT_CREATED'', ''PAYMENT_AWAITING_CONFIRMATION'', ''PAYMENT_CONFIRMED'',
                      ''PAYMENT_RECEIVED'', ''PAYMENT_OVERDUE'', ''PAYMENT_DELETED'',
                      ''PAYMENT_RESTORED'', ''PAYMENT_REFUNDED'']"
  shows "preserves payments (asaas \<lparr>body_event = ev, body_payment = pay\<rparr>)"
  unfolding asaas_def asaas_try_def
  by (intro preserves_await preserves_try_catch preserves_return
      preserves_payments_insert_webhook_log preserves_payments_mark_processed
      preserves_payments_asaas_catch)
     (simp add: dispatch_unrecognized[OF assms] preserves_return)

lemma logged_rows:
  assumes "logged t' = logged t" and "r \<in> set (webhook_logs t)"
  shows "length (webhook_logs t') = length (webhook_logs t) \<and>
         (\<exists>row\<in>set (webhook_logs t').
            l_payment_id row = l_payment_id r \<and> l_event_type row = l_event_type r
            \<and> l_payload row = l_payload r)"
proof -
  have len: "length (webhook_logs t') = length (webhook_logs t)"
    using arg_cong[OF assms(1), of length] by (simp add: logged_def)
  have "written_once r \<in> written_once ` set (webhook_logs t')"
    using arg_cong[OF assms(1), of set] assms(2) by (simp add: logged_def)
  then obtain row where "row \<in> set (webhook_logs t')" "written_once row = written_once r"
    by (auto simp: image_iff)
  then have "\<exists>row\<in>set (webhook_logs t').
            l_payment_id row = l_payment_id r \<and> l_event_type row = l_event_type r
            \<and> l_payload row = l_payload r"
    by (intro bexI[of _ row]) (simp_all add: written_once_def)
  then show ?thesis
    using len by simp
qed

lemma applied_logged: "logged (applied pid s t) = logged t"
  by (simp add: logged_def applied_other_tables)

text \<open>
  Claim C2. In a database that answers every statement and that nobody else writes to,
  a delivery whose event is one of the eight recognized types and whose payment id is
  that of a stored payment is answered with 200 and leaves the payment found under that
  id with the status of the table of section 4.3. For an event type that is not
  recognized, and for a body without an event, also when statements fail (as long as no
  other session writes during the request), the payments table is left exactly as it
  was.
\<close>

theorem webhook_applies_table:
  "(schedule w = [] \<and>
    (ev, s) \<in> set [(''PAYMENT_CREATED'', ''PENDING''),
                   (''PAYMENT_AWAITING_CONFIRMATION'', ''PENDING''),
                   (''PAYMENT_CONFIRMED'', ''CONFIRMED''),
                   (''PAYMENT_RECEIVED'', ''RECEIVED''),
                   (''PAYMENT_OVERDUE'', ''OVERDUE''),
                   (''PAYMENT_DELETED'', ''CANCELLED''),
                   (''PAYMENT_RESTORED'', ''PENDING''),
                   (''PAYMENT_REFUNDED'', ''REFUNDED'')] \<and>
    wp_id p \<in> p_asaas_payment_id ` set (payments (db w)) \<longrightarrow>
      (\<exists>w'. asaas \<lparr>body_event = Some ev, body_payment = Some p\<rparr> w
               = (Inr (Json 200 ''Webhook processado''), w')
         \<and> map_option p_status
              (find (\<lambda>r. p_asaas_payment_id r = wp_id p) (payments (db w'))) = Some s))
   \<and> ((\<forall>e\<in>set (schedule w). \<not> is_Concurrently e) \<and>
      other \<notin> Some ` set [''PAYMENT_CREATED'', ''PAYMENT_AWAITING_CONFIRMATION'',
                  ''PAYMENT_CONFIRMED'', ''PAYMENT_RECEIVED'', ''PAYMENT_OVERDUE'',
                  ''PAYMENT_DELETED'', ''PAYMENT_RESTORED'', ''PAYMENT_REFUNDED''] \<longrightarrow>
      payments (db (snd (asaas \<lparr>body_event = other, body_payment = pay\<rparr> w))) = payments (db w))"
proof (intro conjI impI)
  assume h: "schedule w = [] \<and>
    (ev, s) \<in> set [(''PAYMENT_CREATED'', ''PENDING''),
                   (''PAYMENT_AWAITING_CONFIRMATION'', ''PENDING''),
                   (''PAYMENT_CONFIRMED'', ''CONFIRMED''),
                   (''PAYMENT_RECEIVED'', ''RECEIVED''),
                   (''PAYMENT_OVERDUE'', ''OVERDUE''),
                   (''PAYMENT_DELETED'', ''CANCELLED''),
                   (''PAYMENT_RESTORED'', ''PENDING''),
                   (''PAYMENT_REFUNDED'', ''REFUNDED'')] \<and>
    wp_id p \<in> p_asaas_payment_id ` set (payments (db w))"
  let ?body = "\<lparr>body_event = Some ev, body_payment = Some p\<rparr>"
  let ?t1 = "(db w)\<lparr>webhook_logs := webhook_logs (db w) @
                        [\<lparr>l_id = next_id (map l_id (webhook_logs (db w))),
                          l_payment_id = id_or_null (body_payment ?body),
                          l_event_type = ev, l_payload = ?body,
                          l_processed = False, l_error_message = None,
                          l_created_at = current_timestamp (db w)\<rparr>]\<rparr>"
  have event: "body_event ?body = Some ev"
    by simp
  have step: "\<exists>tr. dispatch (body_event ?body) (body_payment ?body) w1 =
      (Inr (), w1\<lparr>db := applied (wp_id p) s (db w1), trace := trace w1 @ tr\<rparr>)"
    if "schedule w1 = []" for w1
    using dispatch_quiet[OF that, of ev s p] h by simp
  obtain w' matches flag where
    run: "asaas ?body w = (Inr (Json 200 ''Webhook processado''), w')"
    and after: "db w' = snd (update_latest matches flag (applied (wp_id p) s ?t1))"
    using asaas_quiet[of w ?body ev "applied (wp_id p) s", OF _ event step] h by blast
  have "payments (db w') = payments (applied (wp_id p) s (db w))"
    unfolding after by (simp only: update_latest_other_tables applied_payments_frame)
  then have "map_option p_status
      (find (\<lambda>r. p_asaas_payment_id r = wp_id p) (payments (db w'))) = Some s"
    using applied_status[of "wp_id p" "db w" s] h by simp
  then show "\<exists>w'. asaas ?body w = (Inr (Json 200 ''Webhook processado''), w')
         \<and> map_option p_status
              (find (\<lambda>r. p_asaas_payment_id r = wp_id p) (payments (db w'))) = Some s"
    using run by (intro exI[of _ w']) simp
next
  assume h: "(\<forall>e\<in>set (schedule w). \<not> is_Concurrently e) \<and>
      other \<notin> Some ` set [''PAYMENT_CREATED'', ''PAYMENT_AWAITING_CONFIRMATION'',
                  ''PAYMENT_CONFIRMED'', ''PAYMENT_RECEIVED'', ''PAYMENT_OVERDUE'',
                  ''PAYMENT_DELETED'', ''PAYMENT_RESTORED'', ''PAYMENT_REFUNDED'']"
  then have "preserves payments (asaas \<lparr>body_event = other, body_payment = pay\<rparr>)"
    by (intro preserves_payments_unrecognized) simp
  then have "steady payments w (snd (asaas \<lparr>body_event = other, body_payment = pay\<rparr> w))"
    by (simp add: preserves_def)
  then show "payments (db (snd (asaas \<lparr>body_event = other, body_payment = pay\<rparr> w))) = payments (db w)"
    using h by (simp add: steady_def)
qed

theorem webhook_applies_table_witness:
  "schedule calm = [] \<and>
   (\<exists>w'. asaas \<lparr>body_event = Some ''PAYMENT_DELETED'', body_payment = Some \<lparr>wp_id = ''pay_123''\<rparr>\<rparr> calm
            = (Inr (Json 200 ''Webhook processado''), w')
      \<and> map_option p_status
           (find (\<lambda>r. p_asaas_payment_id r = ''pay_123'') (payments (db w'))) = Some ''CANCELLED'')
   \<and> payments (db (snd (asaas \<lparr>body_event = Some ''PAYMENT_UPDATED'',
                               body_payment = Some \<lparr>wp_id = ''pay_123''\<rparr>\<rparr> calm)))
       = payments (db calm)"
proof -
  have quiet: "schedule calm = []"
    by (simp add: calm_def)
  have stored: "''pay_123'' \<in> p_asaas_payment_id ` set (payments (db calm))"
    by (simp add: calm_def store_def pay_123_def)
  show ?thesis
    using quiet stored
      webhook_applies_table [where w = calm and ev = "''PAYMENT_DELETED''" and s = "''CANCELLED''"
        and p = "\<lparr>wp_id = ''pay_123''\<rparr>" and other = "Some ''PAYMENT_UPDATED''"
        and pay = "Some \<lparr>wp_id = ''pay_123''\<rparr>"]
    by simp
qed



text \<open>
  Claim C7, at the input of the scenario of section 8: the payment pay\_123 of plan
  ESSENCIAL is stored as PENDING, nothing fails, and PAYMENT\_RECEIVED is delivered for
  it. The delivery is answered with 200 and the status becomes RECEIVED, but
  customer\_features is still empty: activateCustomerServices is entered and returns at
  once, without having issued a statement.
\<close>

theorem received_activates_nothing:
  "(\<exists>w'. asaas \<lparr>body_event = Some ''PAYMENT_RECEIVED'',
                 body_payment = Some \<lparr>wp_id = ''pay_123''\<rparr>\<rparr> calm
            = (Inr (Json 200 ''Webhook processado''), w')
      \<and> map p_status (payments (db w')) = [''RECEIVED'']
      \<and> customer_features (db w') = [])
   \<and> activateCustomerServices ''pay_123'' calm = (Inr (), calm)"
proof
  let ?p = "\<lparr>wp_id = ''pay_123''\<rparr>"
  let ?body = "\<lparr>body_event = Some ''PAYMENT_RECEIVED'', body_payment = Some ?p\<rparr>"
  let ?t1 = "(db calm)\<lparr>webhook_logs := webhook_logs (db calm) @
                        [\<lparr>l_id = next_id (map l_id (webhook_logs (db calm))),
                          l_payment_id = id_or_null (body_payment ?body),
                          l_event_type = ''PAYMENT_RECEIVED'', l_payload = ?body,
                          l_processed = False, l_error_message = None,
                          l_created_at = current_timestamp (db calm)\<rparr>]\<rparr>"
  have quiet: "schedule calm = []"
    by (simp add: calm_def)
  have event: "body_event ?body = Some ''PAYMENT_RECEIVED''"
    by simp
  have step: "\<exists>tr. dispatch (body_event ?body) (body_payment ?body) w1 =
      (Inr (), w1\<lparr>db := applied ''pay_123'' ''RECEIVED'' (db w1), trace := trace w1 @ tr\<rparr>)"
    if "schedule w1 = []" for w1
    using handlePaymentReceived_quiet[OF that, of ?p] by (simp add: dispatch_def)
  obtain w' matches flag where
    run: "asaas ?body calm = (Inr (Json 200 ''Webhook processado''), w')"
    and after: "db w' = snd (update_latest matches flag (applied ''pay_123'' ''RECEIVED'' ?t1))"
    using asaas_quiet[of calm ?body "''PAYMENT_RECEIVED''" "applied ''pay_123'' ''RECEIVED''",
        OF quiet event step]
    by blast
  have "payments (db w') = payments (applied ''pay_123'' ''RECEIVED'' (db calm))"
    unfolding after by (simp only: update_latest_other_tables applied_payments_frame)
  then have pays: "map p_status (payments (db w')) = [''RECEIVED'']"
    by (simp add: applied_def calm_def store_def pay_123_def set_status_def)
  have "customer_features (db w') = customer_features (db calm)"
    unfolding after by (simp add: update_latest_other_tables applied_other_tables)
  then have feats: "customer_features (db w') = []"
    by (simp add: calm_def store_def)
  show "\<exists>w'. asaas ?body calm = (Inr (Json 200 ''Webhook processado''), w')
      \<and> map p_status (payments (db w')) = [''RECEIVED'']
      \<and> customer_features (db w') = []"
    using run pays feats by (intro exI[of _ w']) simp
  show "activateCustomerServices ''pay_123'' calm = (Inr (), calm)"
    by (rule activateCustomerServices_noop)
qed

section \<open>Reprocessing a stored delivery\<close>



lemma try_catch_await:
  "try_catch (await m k) h w =
     (case m w of (Inl e, w') \<Rightarrow> h e w' | (Inr x, w') \<Rightarrow> try_catch (k x) h w')"
  by (simp add: try_catch_def await_def split: prod.splits sum.splits)



lemma reprocess_unfold:
  "reprocess JSON_parse k w =
     (case select_webhook_log k w of
        (Inl e, w1) \<Rightarrow> (Inr (Json 500 ''Erro ao reprocessar webhook''), w1)
      | (Inr rows, w1) \<Rightarrow>
          try_catch
            (case rows of
               [] \<Rightarrow> return (Json 404 ''Webhook nao encontrado'')
             | log0 # _ \<Rightarrow>
                 (case JSON_parse (l_payload log0) of
                    Inl error \<Rightarrow> throw error
                  | Inr payload \<Rightarrow>
                      await (reprocess_dispatch (body_event payload) (body_payment payload)) (\<lambda>_.
                      await (mark_reprocessed k) (\<lambda>_.
                      return (Json 200
                        (''Webhook '' @ decimal k @ '' reprocessado com sucesso''))))))
            (\<lambda>error. return (Json 500 ''Erro ao reprocessar webhook'')) w1)"
  unfolding reprocess_def try_catch_await
  by (simp add: return_def split: prod.splits sum.splits)


text \<open>
  On the tables of \<^verbatim>\<open>createTables\<close> the route never answers 200: the statement that
  marks the row is refused, whatever came before it.
\<close>

lemma mark_reprocessed_throws: "\<exists>e w'. mark_reprocessed k w = (Inl e, w')"
  by (simp add: mark_reprocessed_def execute_checked_cases Let_def)

lemma reprocess_not_completed: "fst (reprocess JSON_parse k w) \<noteq> Inr (Json 200 text)"
proof -
  have rest: "fst (try_catch
        (case parsed of
           Inl error \<Rightarrow> throw error
         | Inr payload \<Rightarrow>
             await (reprocess_dispatch (body_event payload) (body_payment payload)) (\<lambda>_.
             await (mark_reprocessed k) (\<lambda>_.
             return (Json 200 (''Webhook '' @ decimal k @ '' reprocessado com sucesso'')))))
        (\<lambda>error. return (Json 500 ''Erro ao reprocessar webhook'')) w1)
      = Inr (Json 500 ''Erro ao reprocessar webhook'')" for parsed w1
  proof (cases parsed)
    case (Inl e)
    then show ?thesis
      by (simp add: try_catch_def throw_def return_def)
  next
    case (Inr payload)
    obtain r w2 where d:
      "reprocess_dispatch (body_event payload) (body_payment payload) w1 = (r, w2)"
      by (cases "reprocess_dispatch (body_event payload) (body_payment payload) w1")
    obtain e w3 where m: "mark_reprocessed k w2 = (Inl e, w3)"
      using mark_reprocessed_throws[of k w2] by blast
    show ?thesis
      using Inr d m by (cases r) (simp_all add: try_catch_def await_def return_def)
  qed
  show ?thesis
  proof (cases "select_webhook_log k w")
    case (Pair r w1)
    show ?thesis
    proof (cases r)
      case (Inl e)
      then show ?thesis
        using Pair by (simp add: reprocess_unfold)
    next
      case (Inr rows)
      show ?thesis
      proof (cases rows)
        case Nil
        then show ?thesis
          using Pair Inr by (simp add: reprocess_unfold try_catch_def return_def)
      next
        case (Cons log0 more)
        then show ?thesis
          using Pair Inr rest[of "JSON_parse (l_payload log0)" w1]
          by (simp add: reprocess_unfold)
      qed
    qed
  qed
qed




section \<open>Signature verification\<close>

text \<open>
  Claim C4. With a configured secret (set, not empty, not the placeholder), and with
  \<open>expected\<close> the hex HMAC-SHA256 of the serialized body under that secret (a digest is
  never the empty string), the middleware lets the request through exactly when the
  asaas-signature header is present and equal to \<open>expected\<close>, and answers 401 in every
  other case. A missing (or empty) header is answered with 401 before any digest is
  computed. With no secret configured (unset, empty or the placeholder) it lets every
  request through, whatever the header.
\<close>

theorem verifyWebhookSignature_decides:
  "(webhookSecret = Some secret \<and> secret \<noteq> [] \<and> secret \<noteq> ''your_webhook_secret_here'' \<and>
    digest secret (serialize body) = Inr expected \<and> expected \<noteq> [] \<longrightarrow>
      ((verifyWebhookSignature digest serialize webhookSecret signature body = Next)
          = (signature = Some expected))
      \<and> (signature \<noteq> Some expected \<longrightarrow>
            (\<exists>text. verifyWebhookSignature digest serialize webhookSecret signature body
               = Answer (Json 401 text))))
   \<and> (webhookSecret = Some secret \<and> secret \<noteq> [] \<and> secret \<noteq> ''your_webhook_secret_here'' \<and>
      (signature = None \<or> signature = Some []) \<longrightarrow>
        verifyWebhookSignature digest serialize webhookSecret signature body
          = Answer (Json 401 ''Assinatura do webhook nao encontrada''))
   \<and> (webhookSecret = None \<or> webhookSecret = Some [] \<or>
      webhookSecret = Some ''your_webhook_secret_here'' \<longrightarrow>
        verifyWebhookSignature digest serialize webhookSecret signature body = Next)"
proof (intro conjI impI)
  assume "webhookSecret = Some secret \<and> secret \<noteq> [] \<and> secret \<noteq> ''your_webhook_secret_here'' \<and>
      (signature = None \<or> signature = Some [])"
  then show "verifyWebhookSignature digest serialize webhookSecret signature body
          = Answer (Json 401 ''Assinatura do webhook nao encontrada'')"
    by (auto simp: verifyWebhookSignature_def)
next
  assume "webhookSecret = None \<or> webhookSecret = Some [] \<or>
      webhookSecret = Some ''your_webhook_secret_here''"
  then show "verifyWebhookSignature digest serialize webhookSecret signature body = Next"
    by (elim disjE) (simp_all add: verifyWebhookSignature_def)
next
  assume h: "webhookSecret = Some secret \<and> secret \<noteq> [] \<and> secret \<noteq> ''your_webhook_secret_here'' \<and>
    digest secret (serialize body) = Inr expected \<and> expected \<noteq> []"
  show "(verifyWebhookSignature digest serialize webhookSecret signature body = Next)
          = (signature = Some expected)"
  proof (cases signature)
    case None
    then show ?thesis
      using h by (simp add: verifyWebhookSignature_def)
  next
    case (Some given)
    then show ?thesis
      using h by (cases "given = []") (auto simp: verifyWebhookSignature_def)
  qed
  assume wrong: "signature \<noteq> Some expected"
  show "\<exists>text. verifyWebhookSignature digest serialize webhookSecret signature body
               = Answer (Json 401 text)"
  proof (cases signature)
    case None
    then show ?thesis
      using h by (simp add: verifyWebhookSignature_def)
  next
    case (Some given)
    then show ?thesis
      using h wrong by (cases "given = []") (simp_all add: verifyWebhookSignature_def)
  qed
qed

theorem verifyWebhookSignature_decides_witness:
  "keyed ''k1'' (event_text confirmed) = Inr ''k1:PAYMENT_CONFIRMED''
   \<and> verifyWebhookSignature keyed event_text (Some ''k1'')
       (Some ''k1:PAYMENT_CONFIRMED'') confirmed = Next
   \<and> (\<exists>text. verifyWebhookSignature keyed event_text (Some ''k1'')
        (Some ''k1:PAYMENT_RECEIVED'') confirmed = Answer (Json 401 text))
   \<and> (\<exists>text. verifyWebhookSignature keyed event_text (Some ''k1'')
        (Some ''k2:PAYMENT_CONFIRMED'') confirmed = Answer (Json 401 text))
   \<and> verifyWebhookSignature keyed event_text (Some ''k1'') None confirmed
       = Answer (Json 401 ''Assinatura do webhook nao encontrada'')
   \<and> verifyWebhookSignature keyed event_text None (Some ''0000'') confirmed = Next
   \<and> verifyWebhookSignature keyed event_text (Some ''your_webhook_secret_here'') None confirmed
       = Next"
proof -
  have expected: "keyed ''k1'' (event_text confirmed) = Inr ''k1:PAYMENT_CONFIRMED''"
    by (simp add: keyed_def event_text_def confirmed_def)
  show ?thesis
    using expected
      verifyWebhookSignature_decides [where webhookSecret = "Some ''k1''" and secret = "''k1''"
        and digest = keyed and serialize = event_text and body = confirmed
        and expected = "''k1:PAYMENT_CONFIRMED''" and signature = "Some ''k1:PAYMENT_CONFIRMED''"]
      verifyWebhookSignature_decides [where webhookSecret = "Some ''k1''" and secret = "''k1''"
        and digest = keyed and serialize = event_text and body = confirmed
        and expected = "''k1:PAYMENT_CONFIRMED''" and signature = "Some ''k1:PAYMENT_RECEIVED''"]
      verifyWebhookSignature_decides [where webhookSecret = "Some ''k1''" and secret = "''k1''"
        and digest = keyed and serialize = event_text and body = confirmed
        and expected = "''k1:PAYMENT_CONFIRMED''" and signature = "Some ''k2:PAYMENT_CONFIRMED''"]
      verifyWebhookSignature_decides [where webhookSecret = "Some ''k1''" and secret = "''k1''"
        and digest = keyed and serialize = event_text and body = confirmed
        and expected = "''k1:PAYMENT_CONFIRMED''" and signature = "None"]
      verifyWebhookSignature_decides [where webhookSecret = "None" and secret = "''k1''"
        and digest = keyed and serialize = event_text and body = confirmed
        and expected = "''k1:PAYMENT_CONFIRMED''" and signature = "Some ''0000''"]
      verifyWebhookSignature_decides [where webhookSecret = "Some ''your_webhook_secret_here''"
        and secret = "''k1''"
        and digest = keyed and serialize = event_text and body = confirmed
        and expected = "''k1:PAYMENT_CONFIRMED''" and signature = "None"]
    by simp
qed

section \<open>Payment creation\<close>

lemma request_trace:
  "\<exists>r. request c a w = (r, w\<lparr>trace := trace w @ [c]\<rparr>)"
  by (cases a) (simp_all add: request_def)









end
